theory Spec2Isabelle
  imports Complex_Main "HOL-Library.Sublist" "HOL-Library.Word"
begin

section \<open>Word Deck: the lookup handlers and the recency history\<close>

text \<open>
  The repository holds two versions of one page script. \<^verbatim>\<open>src/index.tsx\<close> asks the
  language service for a JSON entry (structured mode) and hides the word-of-the-day
  section while a lookup runs; \<^verbatim>\<open>src/unnamed/part_000\<close> asks for free text with
  search grounding (grounded-text mode) and has no word-of-the-day section handling.
  \<^verbatim>\<open>showLoading\<close>, \<^verbatim>\<open>clearResults\<close>, \<^verbatim>\<open>renderHistory\<close> and \<^verbatim>\<open>updateHistory\<close>
  are the same in both files; \<^verbatim>\<open>showError\<close> and the submit handler differ.

  The page is a record of the DOM properties the script writes, the \<^verbatim>\<open>localStorage\<close>
  entry under \<^verbatim>\<open>HISTORY_KEY\<close>, the module variable \<^verbatim>\<open>ai\<close>, and a log of the
  \<^verbatim>\<open>generateContent\<close> calls that were issued. A JavaScript exception is a value
  (\<open>Threw\<close>) that carries the page as it was when the exception left the function. The
  asynchronous submit handler is two functions: the part before \<^verbatim>\<open>await\<close> and the part
  that runs when the service call settles.

  A string is the list of its UTF-16 code units. Two operations of the JavaScript
  runtime are parameters of the model (the record \<open>runtime\<close>), because they rest on
  tables and conversions that are no part of the repository:
  \<^verbatim>\<open>String.prototype.toLowerCase\<close>, and the comparison \<^verbatim>\<open>x > n\<close> for \<^verbatim>\<open>x\<close> a string,
  an array or an object. Every general theorem holds for every runtime; the one on the
  recency history asks that \<^verbatim>\<open>toLowerCase\<close> leaves its own results unchanged.

  What the model leaves to the browser: \<^verbatim>\<open>localStorage\<close> is available and
  \<^verbatim>\<open>setItem\<close> succeeds; the text-to-speech button, the details toggle and the random
  choice of the word of the day are not modelled.
\<close>

subsection \<open>Strings\<close>

type_synonym jstring = "16 word list"

text \<open>A string literal of the script: each character is one code unit.\<close>

definition js :: "string \<Rightarrow> jstring" where
  "js s = map (\<lambda>c. of_nat (of_char c)) s"

text \<open>
  The code units that \<^verbatim>\<open>String.prototype.trim\<close> strips: the white space of
  ECMAScript (tab, vertical tab, form feed, space, no-break space, the byte order mark
  and the other space separators of Unicode) and its line terminators (line feed,
  carriage return, line separator, paragraph separator).
\<close>

definition is_ws :: "16 word \<Rightarrow> bool" where
  "is_ws c =
     (c \<in> {0x0009, 0x000A, 0x000B, 0x000C, 0x000D, 0x0020, 0x00A0, 0x1680,
            0x2028, 0x2029, 0x202F, 0x205F, 0x3000, 0xFEFF}
      \<or> (0x2000 \<le> c \<and> c \<le> 0x200A))"

text \<open>\<^verbatim>\<open>String.prototype.trim\<close>: white space is removed at both ends.\<close>

definition trim :: "jstring \<Rightarrow> jstring" where
  "trim s = rev (dropWhile is_ws (rev (dropWhile is_ws s)))"

text \<open>\<^verbatim>\<open>text.replace(/\n/g, '<br>')\<close>.\<close>

definition replace_newlines :: "jstring \<Rightarrow> jstring" where
  "replace_newlines t = concat (map (\<lambda>c. if c = 0x000A then js ''<br>'' else [c]) t)"

subsection \<open>JSON values and the stored history\<close>

text \<open>
  The exceptions that reach the handler's \<^verbatim>\<open>catch\<close>: the two that the script's own
  expressions raise, and the rejection of the service call.
\<close>

datatype js_error = SyntaxError | TypeError | ServiceError

text \<open>
  What \<^verbatim>\<open>JSON.parse\<close> returns. A number is a finite one; an object is the list of its
  own properties, each name once.
\<close>

datatype json =
    JNull
  | JBool bool
  | JNum rat
  | JStr jstring
  | JArr "json list"
  | JObj "(jstring \<times> json) list"

text \<open>
  The \<^verbatim>\<open>localStorage\<close> entry under \<^verbatim>\<open>HISTORY_KEY\<close>, by what \<^verbatim>\<open>getItem\<close> and
  \<^verbatim>\<open>JSON.parse\<close> make of it: no entry (\<^verbatim>\<open>getItem\<close> returns \<^verbatim>\<open>null\<close>), the empty
  string, a text that \<^verbatim>\<open>JSON.parse\<close> rejects (such as \<^verbatim>\<open>{oops\<close>), or a JSON text
  with the value it denotes. \<^verbatim>\<open>JSON.stringify\<close> of a parsed value is a text that
  parses to the same value.
\<close>

datatype item = NoItem | EmptyText | NotJSON | JSONText json

text \<open>
  \<^verbatim>\<open>JSON.parse(localStorage.getItem(HISTORY_KEY) || '[]') as string[]\<close>, the first line
  of \<^verbatim>\<open>renderHistory\<close> and the second of \<^verbatim>\<open>updateHistory\<close>. \<^verbatim>\<open>null\<close> and the empty
  string are falsy, so the text parsed is \<^verbatim>\<open>[]\<close>; the cast checks nothing.
\<close>

definition load_history :: "item \<Rightarrow> js_error + json" where
  "load_history it =
     (case it of
        NoItem \<Rightarrow> Inr (JArr [])
      | EmptyText \<Rightarrow> Inr (JArr [])
      | NotJSON \<Rightarrow> Inl SyntaxError
      | JSONText v \<Rightarrow> Inr v)"

text \<open>
  Reading \<^verbatim>\<open>history.length\<close>: a \<^verbatim>\<open>TypeError\<close> on \<^verbatim>\<open>null\<close>, the number of
  elements of an array, the length of a string, the own property of an object, and
  \<^verbatim>\<open>undefined\<close> (\<open>None\<close>) on a boolean or a number.
\<close>

fun js_length :: "json \<Rightarrow> js_error + json option" where
  "js_length JNull = Inl TypeError"
| "js_length (JArr xs) = Inr (Some (JNum (of_nat (length xs))))"
| "js_length (JStr s) = Inr (Some (JNum (of_nat (length s))))"
| "js_length (JObj kvs) = Inr (map_of kvs (js ''length''))"
| "js_length (JBool b) = Inr None"
| "js_length (JNum n) = Inr None"

text \<open>
  Whether converting a parsed value to a string throws: an object with an own property
  \<^verbatim>\<open>toString\<close> (never a function after \<^verbatim>\<open>JSON.parse\<close>) has no usable conversion,
  and an array joins the conversions of its elements.
\<close>

fun to_string_throws :: "json \<Rightarrow> bool" where
  "to_string_throws (JObj kvs) = (js ''toString'' \<in> set (map fst kvs))"
| "to_string_throws (JArr xs) = list_ex to_string_throws xs"
| "to_string_throws JNull = False"
| "to_string_throws (JBool b) = False"
| "to_string_throws (JNum n) = False"
| "to_string_throws (JStr s) = False"

subsection \<open>The runtime\<close>

text \<open>
  \<open>String_toLowerCase\<close> is \<^verbatim>\<open>String.prototype.toLowerCase\<close>. \<open>greater\<close> is the
  comparison \<^verbatim>\<open>x > n\<close> of a string, an array or an object \<^verbatim>\<open>x\<close> with a number
  literal of the script, which converts \<^verbatim>\<open>x\<close> to a number first and may throw.
\<close>

record runtime =
  String_toLowerCase :: "jstring \<Rightarrow> jstring"
  greater :: "json \<Rightarrow> nat \<Rightarrow> js_error + bool"

text \<open>
  \<^verbatim>\<open>x > n\<close> for \<^verbatim>\<open>n\<close> a natural number of the script: \<^verbatim>\<open>undefined\<close> converts to
  \<^verbatim>\<open>NaN\<close> and compares false, \<^verbatim>\<open>null\<close> to 0, \<^verbatim>\<open>false\<close> to 0 and \<^verbatim>\<open>true\<close> to 1.
\<close>

definition js_greater :: "runtime \<Rightarrow> json option \<Rightarrow> nat \<Rightarrow> js_error + bool" where
  "js_greater rt x n =
     (case x of
        None \<Rightarrow> Inr False
      | Some JNull \<Rightarrow> Inr (0 > n)
      | Some (JBool b) \<Rightarrow> Inr ((if b then 1 else 0) > n)
      | Some (JNum q) \<Rightarrow> Inr (q > of_nat n)
      | Some (JStr s) \<Rightarrow> greater rt (JStr s) n
      | Some (JArr xs) \<Rightarrow> greater rt (JArr xs) n
      | Some (JObj kvs) \<Rightarrow> greater rt (JObj kvs) n)"

text \<open>
  A runtime for the examples. Its \<^verbatim>\<open>toLowerCase\<close> maps the capitals of Basic Latin
  and of Latin-1, as ECMAScript does on strings of code units below U+0100. Its
  comparison answers for strings of decimal digits, as ECMAScript does; no example asks
  it anything else, and there it answers false.
\<close>

definition latin1_lower :: "16 word \<Rightarrow> 16 word" where
  "latin1_lower c =
     (if (0x0041 \<le> c \<and> c \<le> 0x005A) \<or> (0x00C0 \<le> c \<and> c \<le> 0x00DE \<and> c \<noteq> 0x00D7)
      then c + 0x0020 else c)"

definition is_digit :: "16 word \<Rightarrow> bool" where
  "is_digit c = (0x0030 \<le> c \<and> c \<le> 0x0039)"

definition digits_value :: "jstring \<Rightarrow> nat" where
  "digits_value s = foldl (\<lambda>a c. 10 * a + unat (c - 0x0030)) 0 s"

definition digits_greater :: "json \<Rightarrow> nat \<Rightarrow> js_error + bool" where
  "digits_greater x n =
     (case x of
        JStr s \<Rightarrow> Inr (list_all is_digit s \<and> digits_value s > n)
      | _ \<Rightarrow> Inr False)"

definition sample_runtime :: runtime where
  "sample_runtime = \<lparr>String_toLowerCase = map latin1_lower, greater = digits_greater\<rparr>"

subsection \<open>The service's replies\<close>

text \<open>
  Structured mode (\<^verbatim>\<open>index.tsx\<close>). \<^verbatim>\<open>response.text\<close> by what \<^verbatim>\<open>JSON.parse\<close> makes
  of it: \<^verbatim>\<open>undefined\<close>, a text that is not JSON, or a JSON text with the value it
  denotes. The script checks neither the presence nor the type of any field.
\<close>

datatype reply_text = NoText | Unparseable | JSONReply json

text \<open>\<^verbatim>\<open>JSON.parse(response.text)\<close>.\<close>

definition parse_reply :: "reply_text \<Rightarrow> js_error + json" where
  "parse_reply r =
     (case r of
        NoText \<Rightarrow> Inl SyntaxError
      | Unparseable \<Rightarrow> Inl SyntaxError
      | JSONReply v \<Rightarrow> Inr v)"

text \<open>
  Grounded-text mode (\<^verbatim>\<open>part_000\<close>): \<^verbatim>\<open>response.text\<close> and
  \<^verbatim>\<open>response.candidates?.[0]?.groundingMetadata?.groundingChunks\<close>, typed as the
  client library types them.
\<close>

record web_ref =
  uri :: "jstring option"
  title :: "jstring option"

record chunk =
  web :: "web_ref option"

record grounded_response =
  response_text :: "jstring option"
  groundingChunks :: "chunk list option"

text \<open>How the promise of \<^verbatim>\<open>generateContent\<close> settles.\<close>

datatype 'r outcome = Rejected | Resolved 'r

subsection \<open>The page\<close>

text \<open>
  \<^verbatim>\<open>resultsContainer.innerHTML\<close> is the empty string or one of the two fixed templates.
  A view holds what the script writes into the holes of the template: the heading is the
  string written between the tags of the \<^verbatim>\<open>h2\<close> element, unescaped; a hole of the
  structured template holds the value that the template literal converts to a string
  (\<open>None\<close> is \<^verbatim>\<open>undefined\<close>); a part of the template that the script leaves out is
  \<open>Omitted\<close>.
\<close>

datatype 'a part = Omitted | Part 'a

record structured_view =
  sv_heading :: jstring
  sv_compliment :: "json option"
  sv_definition :: "json option"
  sv_example :: "json option part"
  sv_pronunciation :: "json option"
  sv_partOfSpeech :: "json option"
  sv_synonyms :: "json list part"
  sv_antonyms :: "json list part"
  sv_etymology :: "json option"
  sv_moreExamples :: "json list part"

record source_link =
  href :: jstring
  label :: jstring

record grounded_view =
  gv_heading :: jstring
  gv_definition :: jstring
  gv_sources :: "source_link list option"

datatype results = Empty | Structured structured_view | Grounded grounded_view

record page =
  searchInput :: jstring
  resultsContainer :: results
  loader_hidden :: bool
  errorContainer_text :: jstring
  errorContainer_hidden :: bool
  wordOfTheDay_hidden :: bool
  historySection_hidden :: bool
  historyList :: "json list"
  localStorage :: item
  ai :: bool
  calls :: "jstring list"

text \<open>A function that may throw returns the page it leaves behind either way.\<close>

datatype run = Threw js_error page | Done page

fun heading_of :: "results \<Rightarrow> jstring option" where
  "heading_of Empty = None"
| "heading_of (Structured v) = Some (sv_heading v)"
| "heading_of (Grounded v) = Some (gv_heading v)"

text \<open>
  The text that a hole of a template shows, where the conversion is a fixed one:
  \<^verbatim>\<open>undefined\<close>, \<^verbatim>\<open>null\<close>, a boolean or a string. The text of a number, an array or
  an object is left to the runtime (\<open>None\<close>).
\<close>

definition shown_text :: "json option \<Rightarrow> jstring option" where
  "shown_text v =
     (case v of
        None \<Rightarrow> Some (js ''undefined'')
      | Some JNull \<Rightarrow> Some (js ''null'')
      | Some (JBool b) \<Rightarrow> Some (if b then js ''true'' else js ''false'')
      | Some (JStr s) \<Rightarrow> Some s
      | Some (JNum q) \<Rightarrow> None
      | Some (JArr xs) \<Rightarrow> None
      | Some (JObj kvs) \<Rightarrow> None)"

text \<open>
  The heading is written into \<^verbatim>\<open>innerHTML\<close>, so the browser's HTML parser decides what
  the \<^verbatim>\<open>h2\<close> element reads. The model answers for two kinds of heading string. A
  string without \<^verbatim>\<open><\<close>, \<^verbatim>\<open>&\<close>, U+0000 and carriage return is character data: the
  element reads the string itself. Such a string between \<^verbatim>\<open><i>\<close> and \<^verbatim>\<open></i>\<close> is an
  \<^verbatim>\<open>i\<close> element that holds it: the \<^verbatim>\<open>h2\<close> element reads the string without the
  tags. Any other heading string is left open (\<open>None\<close>). What the element reads is
  its text content; the style class \<^verbatim>\<open>capitalize\<close> of the heading changes how the
  browser draws the text, not the text.
\<close>

definition markup_free :: "jstring \<Rightarrow> bool" where
  "markup_free h = list_all (\<lambda>c. c \<notin> {0x003C, 0x0026, 0x0000, 0x000D}) h"

definition heading_text :: "jstring \<Rightarrow> jstring option" where
  "heading_text h =
     (if markup_free h then Some h
      else if 7 \<le> length h \<and> take 3 h = js ''<i>'' \<and> drop (length h - 4) h = js ''</i>''
              \<and> markup_free (take (length h - 7) (drop 3 h))
      then Some (take (length h - 7) (drop 3 h))
      else None)"

text \<open>What the heading of the entry in the results container reads.\<close>

definition heading_shown :: "results \<Rightarrow> jstring option" where
  "heading_shown r = (case heading_of r of None \<Rightarrow> None | Some h \<Rightarrow> heading_text h)"

subsection \<open>Functions shared by both files\<close>

definition showLoading :: "bool \<Rightarrow> page \<Rightarrow> page" where
  "showLoading isLoading s = s\<lparr>loader_hidden := \<not> isLoading\<rparr>"

definition clearResults :: "page \<Rightarrow> page" where
  "clearResults s = s\<lparr>resultsContainer := Empty, errorContainer_hidden := True\<rparr>"

text \<open>
  The \<^verbatim>\<open>forEach\<close> of \<^verbatim>\<open>renderHistory\<close>: a button per item, appended after its text
  and its \<^verbatim>\<open>data-word\<close> are set from the item.
\<close>

fun append_items :: "json list \<Rightarrow> page \<Rightarrow> run" where
  "append_items [] s = Done s"
| "append_items (w # ws) s =
     (if to_string_throws w then Threw TypeError s
      else append_items ws (s\<lparr>historyList := historyList s @ [w]\<rparr>))"

definition renderHistory :: "page \<Rightarrow> run" where
  "renderHistory s =
     (case load_history (localStorage s) of
        Inl e \<Rightarrow> Threw e s
      | Inr history \<Rightarrow>
          (case js_length history of
             Inl e \<Rightarrow> Threw e s
           | Inr len \<Rightarrow>
               if len = Some (JNum 0) then Done (s\<lparr>historySection_hidden := True\<rparr>)
               else
                 (let s1 = s\<lparr>historySection_hidden := False, historyList := []\<rparr> in
                  case history of
                    JArr xs \<Rightarrow> append_items xs s1
                  | _ \<Rightarrow> Threw TypeError s1)))"

text \<open>
  Lines 249 to 258 of \<^verbatim>\<open>updateHistory\<close> on the parsed array: the lower-cased word is
  filtered out with \<^verbatim>\<open>!==\<close>, put in front, and the first five are kept.
\<close>

definition recorded :: "runtime \<Rightarrow> jstring \<Rightarrow> json list \<Rightarrow> json list" where
  "recorded rt word history =
     (let normalizedWord = String_toLowerCase rt word;
          history1 = filter (\<lambda>item. item \<noteq> JStr normalizedWord) history;
          history2 = JStr normalizedWord # history1
      in if length history2 > 5 then take 5 history2 else history2)"

text \<open>\<^verbatim>\<open>filter\<close> is a function of arrays only; on any other value the call throws.\<close>

definition updateHistory :: "runtime \<Rightarrow> jstring \<Rightarrow> page \<Rightarrow> run" where
  "updateHistory rt word s =
     (case load_history (localStorage s) of
        Inl e \<Rightarrow> Threw e s
      | Inr history \<Rightarrow>
          (case history of
             JArr xs \<Rightarrow>
               renderHistory (s\<lparr>localStorage := JSONText (JArr (recorded rt word xs))\<rparr>)
           | _ \<Rightarrow> Threw TypeError s))"

subsection \<open>Reading the parsed reply (index.tsx)\<close>

text \<open>
  \<^verbatim>\<open>data.name\<close> for the eight names that the template reads: a \<^verbatim>\<open>TypeError\<close> on
  \<^verbatim>\<open>null\<close>, the own property of an object, and \<^verbatim>\<open>undefined\<close> on any other value.
\<close>

definition get_field :: "json \<Rightarrow> jstring \<Rightarrow> js_error + json option" where
  "get_field data name =
     (case data of
        JNull \<Rightarrow> Inl TypeError
      | JObj kvs \<Rightarrow> Inr (map_of kvs name)
      | _ \<Rightarrow> Inr None)"

text \<open>The values that count as false in \<^verbatim>\<open>v && ...\<close>.\<close>

definition truthy :: "json option \<Rightarrow> bool" where
  "truthy v =
     (case v of
        None \<Rightarrow> False
      | Some JNull \<Rightarrow> False
      | Some (JBool b) \<Rightarrow> b
      | Some (JNum q) \<Rightarrow> q \<noteq> 0
      | Some (JStr s) \<Rightarrow> s \<noteq> []
      | Some (JArr xs) \<Rightarrow> True
      | Some (JObj kvs) \<Rightarrow> True)"

text \<open>\<^verbatim>\<open>v.length\<close>, \<^verbatim>\<open>v[0]\<close>, \<^verbatim>\<open>v.slice(1)\<close> and \<^verbatim>\<open>v.map(...)\<close>. Reading a
  property of \<^verbatim>\<open>undefined\<close> throws; \<^verbatim>\<open>slice\<close> is a function of arrays and strings,
  \<^verbatim>\<open>map\<close> of arrays only, and the callbacks of \<^verbatim>\<open>map\<close> convert each element to a
  string.\<close>

definition property_length :: "json option \<Rightarrow> js_error + json option" where
  "property_length v = (case v of None \<Rightarrow> Inl TypeError | Some x \<Rightarrow> js_length x)"

definition js_index0 :: "json option \<Rightarrow> js_error + json option" where
  "js_index0 v =
     (case v of
        None \<Rightarrow> Inl TypeError
      | Some JNull \<Rightarrow> Inl TypeError
      | Some (JArr xs) \<Rightarrow> Inr (case xs of [] \<Rightarrow> None | x # rest \<Rightarrow> Some x)
      | Some (JStr s) \<Rightarrow> Inr (case s of [] \<Rightarrow> None | c # rest \<Rightarrow> Some (JStr [c]))
      | Some (JObj kvs) \<Rightarrow> Inr (map_of kvs (js ''0''))
      | Some (JBool b) \<Rightarrow> Inr None
      | Some (JNum q) \<Rightarrow> Inr None)"

definition js_slice1 :: "json option \<Rightarrow> js_error + json option" where
  "js_slice1 v =
     (case v of
        Some (JArr xs) \<Rightarrow> Inr (Some (JArr (drop 1 xs)))
      | Some (JStr s) \<Rightarrow> Inr (Some (JStr (drop 1 s)))
      | _ \<Rightarrow> Inl TypeError)"

definition js_map :: "json option \<Rightarrow> js_error + json list" where
  "js_map v =
     (case v of
        Some (JArr xs) \<Rightarrow> if list_ex to_string_throws xs then Inl TypeError else Inr xs
      | _ \<Rightarrow> Inl TypeError)"

text \<open>\<^verbatim>\<open>${x}\<close>: the value is converted to a string, which may throw.\<close>

definition interpolate :: "json option \<Rightarrow> js_error + json option" where
  "interpolate v =
     (case v of
        None \<Rightarrow> Inr None
      | Some x \<Rightarrow> if to_string_throws x then Inl TypeError else Inr (Some x))"

text \<open>\<^verbatim>\<open>v && v.length > n\<close>.\<close>

definition has_more_than :: "runtime \<Rightarrow> json option \<Rightarrow> nat \<Rightarrow> js_error + bool" where
  "has_more_than rt v n =
     (if truthy v
      then (case property_length v of Inl e \<Rightarrow> Inl e | Inr len \<Rightarrow> js_greater rt len n)
      else Inr False)"

text \<open>An expression that throws ends the \<^verbatim>\<open>try\<close> block; otherwise the block goes on.\<close>

definition and_then :: "js_error + 'a \<Rightarrow> ('a \<Rightarrow> js_error + 'b) \<Rightarrow> js_error + 'b" where
  "and_then r f = (case r of Inl e \<Rightarrow> Inl e | Inr x \<Rightarrow> f x)"

text \<open>\<^verbatim>\<open>${data.name}\<close>.\<close>

definition hole :: "json \<Rightarrow> jstring \<Rightarrow> js_error + json option" where
  "hole data name = and_then (get_field data name) interpolate"

text \<open>Lines 116 to 121: the first example sentence, when there is one.\<close>

definition example_part :: "runtime \<Rightarrow> json \<Rightarrow> js_error + json option part" where
  "example_part rt data =
     and_then (get_field data (js ''exampleSentences'')) (\<lambda>v.
     and_then (has_more_than rt v 0) (\<lambda>more.
       if more
       then and_then (js_index0 v) (\<lambda>x. and_then (interpolate x) (\<lambda>y. Inr (Part y)))
       else Inr Omitted))"

text \<open>Lines 133 to 139 and 140 to 146: the synonyms and the antonyms.\<close>

definition list_part :: "runtime \<Rightarrow> json \<Rightarrow> jstring \<Rightarrow> js_error + json list part" where
  "list_part rt data name =
     and_then (get_field data name) (\<lambda>v.
     and_then (has_more_than rt v 0) (\<lambda>more.
       if more then and_then (js_map v) (\<lambda>xs. Inr (Part xs)) else Inr Omitted))"

text \<open>Lines 151 to 158: the example sentences after the first.\<close>

definition more_examples_part :: "runtime \<Rightarrow> json \<Rightarrow> js_error + json list part" where
  "more_examples_part rt data =
     and_then (get_field data (js ''exampleSentences'')) (\<lambda>v.
     and_then (has_more_than rt v 1) (\<lambda>more.
       if more
       then and_then (js_slice1 v) (\<lambda>rest. and_then (js_map rest) (\<lambda>xs. Inr (Part xs)))
       else Inr Omitted))"

text \<open>The template of lines 98 to 167, its expressions in the order they are evaluated.\<close>

definition render_structured :: "runtime \<Rightarrow> jstring \<Rightarrow> json \<Rightarrow> js_error + structured_view" where
  "render_structured rt word data =
     and_then (hole data (js ''compliment'')) (\<lambda>compliment.
     and_then (hole data (js ''definition'')) (\<lambda>defn.
     and_then (example_part rt data) (\<lambda>example.
     and_then (hole data (js ''pronunciation'')) (\<lambda>pronunciation.
     and_then (hole data (js ''partOfSpeech'')) (\<lambda>partOfSpeech.
     and_then (list_part rt data (js ''synonyms'')) (\<lambda>synonyms.
     and_then (list_part rt data (js ''antonyms'')) (\<lambda>antonyms.
     and_then (hole data (js ''etymology'')) (\<lambda>etymology.
     and_then (more_examples_part rt data) (\<lambda>moreExamples.
       Inr \<lparr>sv_heading = word,
            sv_compliment = compliment,
            sv_definition = defn,
            sv_example = example,
            sv_pronunciation = pronunciation,
            sv_partOfSpeech = partOfSpeech,
            sv_synonyms = synonyms,
            sv_antonyms = antonyms,
            sv_etymology = etymology,
            sv_moreExamples = moreExamples\<rparr>)))))))))"

subsection \<open>The submit handler of index.tsx (structured mode)\<close>

definition empty_query_message :: jstring where
  "empty_query_message = js ''Please enter a word.''"

definition not_initialized_message :: jstring where
  "not_initialized_message = js ''Gemini API is not initialized.''"

definition init_failed_message :: jstring where
  "init_failed_message =
     js ''Could not initialize the Gemini API. Please check your API key.''"

definition fetch_error_message :: jstring where
  "fetch_error_message =
     js ''An error occurred while fetching the definition. The word might be too obscure or there was a network issue. Please try again.''"

definition showError :: "jstring \<Rightarrow> page \<Rightarrow> page" where
  "showError message s =
     s\<lparr>resultsContainer := Empty,
       errorContainer_text := message,
       errorContainer_hidden := False,
       wordOfTheDay_hidden := False\<rparr>"

text \<open>
  The module's \<^verbatim>\<open>try { ai = new GoogleGenAI(...) } catch\<close>: when the constructor
  throws, \<^verbatim>\<open>ai\<close> stays \<^verbatim>\<open>undefined\<close> and the error is shown.
\<close>

definition init_ai :: "bool \<Rightarrow> page \<Rightarrow> page" where
  "init_ai constructed s =
     (if constructed then s\<lparr>ai := True\<rparr>
      else showError init_failed_message (s\<lparr>ai := False\<rparr>))"

text \<open>
  The handler up to its \<^verbatim>\<open>await\<close>: it has returned (\<open>Finished\<close>), or the service
  call is issued for the trimmed word and the handler is suspended (\<open>Awaiting\<close>).
\<close>

datatype started = Finished page | Awaiting jstring page

definition submit_begin :: "page \<Rightarrow> started" where
  "submit_begin s =
     (let word = trim (searchInput s) in
      if word = [] then Finished (showError empty_query_message s)
      else if \<not> ai s then Finished (showError not_initialized_message s)
      else
        Awaiting word
          ((clearResults (showLoading True (s\<lparr>wordOfTheDay_hidden := True\<rparr>)))
             \<lparr>calls := calls s @ [word]\<rparr>))"

text \<open>The rest of the \<^verbatim>\<open>try\<close> block, from the settled service call on.\<close>

definition submit_body :: "runtime \<Rightarrow> jstring \<Rightarrow> reply_text outcome \<Rightarrow> page \<Rightarrow> run" where
  "submit_body rt word settled s =
     (case settled of
        Rejected \<Rightarrow> Threw ServiceError s
      | Resolved r \<Rightarrow>
          (case updateHistory rt word s of
             Threw e s1 \<Rightarrow> Threw e s1
           | Done s1 \<Rightarrow>
               (case parse_reply r of
                  Inl e \<Rightarrow> Threw e s1
                | Inr data \<Rightarrow>
                    (case render_structured rt word data of
                       Inl e \<Rightarrow> Threw e s1
                     | Inr v \<Rightarrow> Done (s1\<lparr>resultsContainer := Structured v\<rparr>)))))"

text \<open>\<^verbatim>\<open>catch\<close> and \<^verbatim>\<open>finally\<close>.\<close>

definition submit_resume :: "runtime \<Rightarrow> jstring \<Rightarrow> reply_text outcome \<Rightarrow> page \<Rightarrow> page" where
  "submit_resume rt word settled s =
     (case submit_body rt word settled s of
        Threw e s1 \<Rightarrow> showLoading False (showError fetch_error_message s1)
      | Done s1 \<Rightarrow> showLoading False s1)"

text \<open>One lookup with nothing else happening while the service call is in flight.\<close>

definition submit :: "runtime \<Rightarrow> reply_text outcome \<Rightarrow> page \<Rightarrow> page" where
  "submit rt settled s =
     (case submit_begin s of
        Finished s1 \<Rightarrow> s1
      | Awaiting word s1 \<Rightarrow> submit_resume rt word settled s1)"

subsection \<open>The submit handler of part_000 (grounded-text mode)\<close>

definition fetch_error_message_grounded :: jstring where
  "fetch_error_message_grounded =
     js ''An error occurred while fetching the definition. Please try again.''"

definition showError_grounded :: "jstring \<Rightarrow> page \<Rightarrow> page" where
  "showError_grounded message s =
     s\<lparr>resultsContainer := Empty,
       errorContainer_text := message,
       errorContainer_hidden := False\<rparr>"

definition init_ai_grounded :: "bool \<Rightarrow> page \<Rightarrow> page" where
  "init_ai_grounded constructed s =
     (if constructed then s\<lparr>ai := True\<rparr>
      else showError_grounded init_failed_message (s\<lparr>ai := False\<rparr>))"

text \<open>
  A template literal \<^verbatim>\<open>${x}\<close> for \<^verbatim>\<open>x\<close> a string or \<^verbatim>\<open>undefined\<close>
  (\<open>None\<close>): \<^verbatim>\<open>undefined\<close> is written as the nine letters.
\<close>

definition js_string :: "jstring option \<Rightarrow> jstring" where
  "js_string v = (case v of None \<Rightarrow> js ''undefined'' | Some s \<Rightarrow> s)"

text \<open>\<^verbatim>\<open>chunk.web.title || chunk.web.uri\<close>, written into the link.\<close>

definition link_label :: "web_ref \<Rightarrow> jstring" where
  "link_label w =
     (case title w of
        None \<Rightarrow> js_string (uri w)
      | Some t \<Rightarrow> if t = [] then js_string (uri w) else t)"

text \<open>The list item: the link goes to the URI and shows the title.\<close>

definition link_of :: "web_ref \<Rightarrow> source_link" where
  "link_of w = \<lparr>href = js_string (uri w), label = link_label w\<rparr>"

text \<open>
  The loop of lines 84 to 89 over the grounding chunks, with the set \<^verbatim>\<open>seenUris\<close>:
  the list items in the order they are appended.
\<close>

fun source_items :: "chunk list \<Rightarrow> jstring option set \<Rightarrow> source_link list" where
  "source_items [] seenUris = []"
| "source_items (c # cs) seenUris =
     (case web c of
        None \<Rightarrow> source_items cs seenUris
      | Some w \<Rightarrow>
          if uri w \<in> seenUris then source_items cs seenUris
          else link_of w # source_items cs (insert (uri w) seenUris))"

text \<open>
  Lines 77 to 104: \<^verbatim>\<open>response.text.replace\<close> throws when the reply has no text; the
  list of sources is written when there is at least one grounding chunk.
\<close>

definition sources_section :: "chunk list option \<Rightarrow> source_link list option" where
  "sources_section chunks =
     (case chunks of
        None \<Rightarrow> None
      | Some cs \<Rightarrow> if length cs > 0 then Some (source_items cs {}) else None)"

definition render_grounded :: "jstring \<Rightarrow> grounded_response \<Rightarrow> js_error + grounded_view" where
  "render_grounded word response =
     (case response_text response of
        None \<Rightarrow> Inl TypeError
      | Some t \<Rightarrow>
          Inr \<lparr>gv_heading = word,
               gv_definition = replace_newlines t,
               gv_sources = sources_section (groundingChunks response)\<rparr>)"

definition submit_begin_grounded :: "page \<Rightarrow> started" where
  "submit_begin_grounded s =
     (let word = trim (searchInput s) in
      if word = [] then Finished (showError_grounded empty_query_message s)
      else if \<not> ai s then Finished (showError_grounded not_initialized_message s)
      else Awaiting word ((clearResults (showLoading True s))\<lparr>calls := calls s @ [word]\<rparr>))"

definition submit_body_grounded ::
  "runtime \<Rightarrow> jstring \<Rightarrow> grounded_response outcome \<Rightarrow> page \<Rightarrow> run" where
  "submit_body_grounded rt word settled s =
     (case settled of
        Rejected \<Rightarrow> Threw ServiceError s
      | Resolved response \<Rightarrow>
          (case updateHistory rt word s of
             Threw e s1 \<Rightarrow> Threw e s1
           | Done s1 \<Rightarrow>
               (case render_grounded word response of
                  Inl e \<Rightarrow> Threw e s1
                | Inr v \<Rightarrow> Done (s1\<lparr>resultsContainer := Grounded v\<rparr>))))"

definition submit_resume_grounded ::
  "runtime \<Rightarrow> jstring \<Rightarrow> grounded_response outcome \<Rightarrow> page \<Rightarrow> page" where
  "submit_resume_grounded rt word settled s =
     (case submit_body_grounded rt word settled s of
        Threw e s1 \<Rightarrow> showLoading False (showError_grounded fetch_error_message_grounded s1)
      | Done s1 \<Rightarrow> showLoading False s1)"

definition submit_grounded :: "runtime \<Rightarrow> grounded_response outcome \<Rightarrow> page \<Rightarrow> page" where
  "submit_grounded rt settled s =
     (case submit_begin_grounded s of
        Finished s1 \<Rightarrow> s1
      | Awaiting word s1 \<Rightarrow> submit_resume_grounded rt word settled s1)"

subsection \<open>Lookups that overlap\<close>

text \<open>
  The page's events in the order the browser runs them: the user types a query, the form
  is submitted, or the service call that was issued as the \<open>i\<close>-th of those still in
  flight settles. The second component of the state lists the words of the calls in
  flight, oldest first. The handler is a parameter, so that both files run on the same
  event loop.
\<close>

datatype 'r event = TypeIn jstring | Submit | Settle nat "'r outcome"

fun step ::
  "(page \<Rightarrow> started) \<Rightarrow> (jstring \<Rightarrow> 'r outcome \<Rightarrow> page \<Rightarrow> page) \<Rightarrow>
   'r event \<Rightarrow> page \<times> jstring list \<Rightarrow> page \<times> jstring list" where
  "step begin_handler resume_handler (TypeIn q) (s, pending) = (s\<lparr>searchInput := q\<rparr>, pending)"
| "step begin_handler resume_handler Submit (s, pending) =
     (case begin_handler s of
        Finished s1 \<Rightarrow> (s1, pending)
      | Awaiting word s1 \<Rightarrow> (s1, pending @ [word]))"
| "step begin_handler resume_handler (Settle i settled) (s, pending) =
     (if i < length pending
      then (resume_handler (pending ! i) settled s, take i pending @ drop (Suc i) pending)
      else (s, pending))"

fun run_events ::
  "(page \<Rightarrow> started) \<Rightarrow> (jstring \<Rightarrow> 'r outcome \<Rightarrow> page \<Rightarrow> page) \<Rightarrow>
   'r event list \<Rightarrow> page \<times> jstring list \<Rightarrow> page \<times> jstring list" where
  "run_events begin_handler resume_handler [] w = w"
| "run_events begin_handler resume_handler (e # es) w =
     run_events begin_handler resume_handler es (step begin_handler resume_handler e w)"

text \<open>
  Two lookups that overlap: query A is submitted, query B is submitted while the call
  for A is in flight, and then both calls settle, the one for B first or the one for A
  first. After the first of them has settled, the other is the only call in flight.
\<close>

definition overlap_B_first ::
  "jstring \<Rightarrow> 'r outcome \<Rightarrow> jstring \<Rightarrow> 'r outcome \<Rightarrow> 'r event list" where
  "overlap_B_first qA oA qB oB =
     [TypeIn qA, Submit, TypeIn qB, Submit, Settle 1 oB, Settle 0 oA]"

definition overlap_A_first ::
  "jstring \<Rightarrow> 'r outcome \<Rightarrow> jstring \<Rightarrow> 'r outcome \<Rightarrow> 'r event list" where
  "overlap_A_first qA oA qB oB =
     [TypeIn qA, Submit, TypeIn qB, Submit, Settle 0 oA, Settle 0 oB]"

subsection \<open>Pages and replies of the examples\<close>

text \<open>A page with nothing shown, no stored history and a working client.\<close>

definition quiet_page :: page where
  "quiet_page =
     \<lparr>searchInput = [],
      resultsContainer = Empty,
      loader_hidden = True,
      errorContainer_text = [],
      errorContainer_hidden = True,
      wordOfTheDay_hidden = False,
      historySection_hidden = True,
      historyList = [],
      localStorage = NoItem,
      ai = True,
      calls = []\<rparr>"

text \<open>
  A reply that follows the response schema; the same reply without its definition; and
  the same reply with a number for its definition and a number for its synonyms.
\<close>

definition sample_entry :: json where
  "sample_entry =
     JObj [(js ''compliment'', JStr (js ''Your resilience is remarkable.'')),
           (js ''pronunciation'', JStr (js ''/ri-zil-yens/'')),
           (js ''partOfSpeech'', JStr (js ''noun'')),
           (js ''definition'', JStr (js ''The capacity to recover quickly.'')),
           (js ''synonyms'', JArr [JStr (js ''toughness'')]),
           (js ''antonyms'', JArr []),
           (js ''etymology'', JStr (js ''From Latin resilire.'')),
           (js ''exampleSentences'',
              JArr [JStr (js ''She showed resilience.''), JStr (js ''Resilience takes time.'')])]"

definition sample_entry_no_definition :: json where
  "sample_entry_no_definition =
     JObj [(js ''compliment'', JStr (js ''Your resilience is remarkable.'')),
           (js ''pronunciation'', JStr (js ''/ri-zil-yens/'')),
           (js ''partOfSpeech'', JStr (js ''noun'')),
           (js ''synonyms'', JArr [JStr (js ''toughness'')]),
           (js ''antonyms'', JArr []),
           (js ''etymology'', JStr (js ''From Latin resilire.'')),
           (js ''exampleSentences'',
              JArr [JStr (js ''She showed resilience.''), JStr (js ''Resilience takes time.'')])]"

definition sample_entry_wrong_types :: json where
  "sample_entry_wrong_types =
     JObj [(js ''compliment'', JStr (js ''Your resilience is remarkable.'')),
           (js ''pronunciation'', JStr (js ''/ri-zil-yens/'')),
           (js ''partOfSpeech'', JStr (js ''noun'')),
           (js ''definition'', JNum 42),
           (js ''synonyms'', JNum 7),
           (js ''antonyms'', JArr []),
           (js ''etymology'', JStr (js ''From Latin resilire.'')),
           (js ''exampleSentences'',
              JArr [JStr (js ''She showed resilience.''), JStr (js ''Resilience takes time.'')])]"

text \<open>
  A grounded reply of two lines with four grounding chunks: one has no web reference
  and the last repeats the URI of the first.
\<close>

definition sample_grounded :: grounded_response where
  "sample_grounded =
     \<lparr>response_text = Some (js ''lasting'' @ [0x000A] @ js ''a short time''),
      groundingChunks =
        Some [\<lparr>web = Some \<lparr>uri = Some (js ''https://a.example''), title = Some (js ''A'')\<rparr>\<rparr>,
              \<lparr>web = None\<rparr>,
              \<lparr>web = Some \<lparr>uri = Some (js ''https://b.example''), title = None\<rparr>\<rparr>,
              \<lparr>web = Some \<lparr>uri = Some (js ''https://a.example''),
                           title = Some (js ''A again'')\<rparr>\<rparr>]\<rparr>"

subsection \<open>Notions used by the properties\<close>

fun store_after :: "run \<Rightarrow> item" where
  "store_after (Done s) = localStorage s"
| "store_after (Threw e s) = localStorage s"

fun page_of :: "run \<Rightarrow> page" where
  "page_of (Done s) = s"
| "page_of (Threw e s) = s"

fun threw :: "run \<Rightarrow> bool" where
  "threw (Done s) = False"
| "threw (Threw e s) = True"

text \<open>
  Whether \<^verbatim>\<open>updateHistory\<close> returns normally on a stored entry: the entry reads as an
  array, and each item of the new array can be written on a button.
\<close>

definition history_recordable :: "runtime \<Rightarrow> jstring \<Rightarrow> item \<Rightarrow> bool" where
  "history_recordable rt word it =
     (case load_history it of
        Inr (JArr xs) \<Rightarrow> \<not> list_ex to_string_throws (recorded rt word xs)
      | _ \<Rightarrow> False)"

text \<open>
  The stored entry after a service call has settled: \<^verbatim>\<open>setItem\<close> is reached when
  the call has resolved and the entry reads as an array.
\<close>

definition store_after_call :: "runtime \<Rightarrow> jstring \<Rightarrow> 'r outcome \<Rightarrow> item \<Rightarrow> item" where
  "store_after_call rt word settled it =
     (case settled of
        Rejected \<Rightarrow> it
      | Resolved r \<Rightarrow>
          (case load_history it of
             Inr (JArr xs) \<Rightarrow> JSONText (JArr (recorded rt word xs))
           | _ \<Rightarrow> it))"

text \<open>
  The entry that a lookup produces when its call settles: none when the call is
  rejected, when the history cannot be recorded, or when reading the reply throws.
\<close>

definition lookup_entry ::
  "runtime \<Rightarrow> jstring \<Rightarrow> reply_text outcome \<Rightarrow> item \<Rightarrow> structured_view option" where
  "lookup_entry rt word settled it =
     (case settled of
        Rejected \<Rightarrow> None
      | Resolved r \<Rightarrow>
          if history_recordable rt word it
          then (case and_then (parse_reply r) (render_structured rt word) of
                  Inl e \<Rightarrow> None
                | Inr v \<Rightarrow> Some v)
          else None)"

definition lookup_entry_grounded ::
  "runtime \<Rightarrow> jstring \<Rightarrow> grounded_response outcome \<Rightarrow> item \<Rightarrow> grounded_view option" where
  "lookup_entry_grounded rt word settled it =
     (case settled of
        Rejected \<Rightarrow> None
      | Resolved r \<Rightarrow>
          if history_recordable rt word it
          then (case render_grounded word r of Inl e \<Rightarrow> None | Inr v \<Rightarrow> Some v)
          else None)"

text \<open>
  A reply object whose fields, where present, have the types of the response schema:
  the five texts are strings and the three lists are arrays of strings.
\<close>

fun is_string :: "json \<Rightarrow> bool" where
  "is_string (JStr s) = True"
| "is_string JNull = False"
| "is_string (JBool b) = False"
| "is_string (JNum n) = False"
| "is_string (JArr xs) = False"
| "is_string (JObj kvs) = False"

definition text_field :: "json option \<Rightarrow> bool" where
  "text_field v = (case v of None \<Rightarrow> True | Some x \<Rightarrow> is_string x)"

definition list_field :: "json option \<Rightarrow> bool" where
  "list_field v =
     (case v of
        None \<Rightarrow> True
      | Some (JArr xs) \<Rightarrow> list_all is_string xs
      | Some x \<Rightarrow> False)"

fun follows_schema :: "json \<Rightarrow> bool" where
  "follows_schema (JObj kvs) =
     (text_field (map_of kvs (js ''compliment''))
      \<and> text_field (map_of kvs (js ''pronunciation''))
      \<and> text_field (map_of kvs (js ''partOfSpeech''))
      \<and> text_field (map_of kvs (js ''definition''))
      \<and> list_field (map_of kvs (js ''synonyms''))
      \<and> list_field (map_of kvs (js ''antonyms''))
      \<and> text_field (map_of kvs (js ''etymology''))
      \<and> list_field (map_of kvs (js ''exampleSentences'')))"
| "follows_schema JNull = False"
| "follows_schema (JBool b) = False"
| "follows_schema (JNum n) = False"
| "follows_schema (JStr s) = False"
| "follows_schema (JArr xs) = False"

text \<open>
  Two history entries are equal case-insensitively when they are the same after
  \<^verbatim>\<open>toLowerCase\<close>; \<open>no_ci_duplicates\<close> says that no two positions of the history
  hold such entries.
\<close>

fun ci_norm :: "runtime \<Rightarrow> json \<Rightarrow> json" where
  "ci_norm rt (JStr s) = JStr (String_toLowerCase rt s)"
| "ci_norm rt JNull = JNull"
| "ci_norm rt (JBool b) = JBool b"
| "ci_norm rt (JNum n) = JNum n"
| "ci_norm rt (JArr xs) = JArr xs"
| "ci_norm rt (JObj kvs) = JObj kvs"

definition no_ci_duplicates :: "runtime \<Rightarrow> json list \<Rightarrow> bool" where
  "no_ci_duplicates rt h = distinct (map (ci_norm rt) h)"

text \<open>
  The invariant of the histories that the script itself writes: at most five different
  strings, each in lower case.
\<close>

fun is_lower_word :: "runtime \<Rightarrow> json \<Rightarrow> bool" where
  "is_lower_word rt (JStr s) = (String_toLowerCase rt s = s)"
| "is_lower_word rt JNull = False"
| "is_lower_word rt (JBool b) = False"
| "is_lower_word rt (JNum n) = False"
| "is_lower_word rt (JArr xs) = False"
| "is_lower_word rt (JObj kvs) = False"

definition well_kept :: "runtime \<Rightarrow> json list \<Rightarrow> bool" where
  "well_kept rt h = (list_all (is_lower_word rt) h \<and> distinct h \<and> length h \<le> 5)"

text \<open>Several words recorded one after the other; an exception ends the sequence.\<close>

fun update_all :: "runtime \<Rightarrow> jstring list \<Rightarrow> page \<Rightarrow> run" where
  "update_all rt [] s = Done s"
| "update_all rt (w # ws) s =
     (case updateHistory rt w s of
        Done s1 \<Rightarrow> update_all rt ws s1
      | Threw e s1 \<Rightarrow> Threw e s1)"

text \<open>
  The stored entries that the script reaches from a browser with no entry:
  \<^verbatim>\<open>updateHistory\<close> is the only function that writes the entry.
\<close>

inductive reachable_store :: "runtime \<Rightarrow> item \<Rightarrow> bool" for rt where
  fresh: "reachable_store rt NoItem"
| updated:
    "reachable_store rt (localStorage s) \<Longrightarrow>
     reachable_store rt (store_after (updateHistory rt w s))"

text \<open>
  The specification's words for the sources of a grounded reply: the citations are the
  chunks that carry a web reference, deduplicated by URI, the first one seen of each URI
  kept, in the order seen.
\<close>

definition web_refs :: "chunk list \<Rightarrow> web_ref list" where
  "web_refs cs = List.map_filter web cs"

fun dedup_by_uri :: "web_ref list \<Rightarrow> web_ref list" where
  "dedup_by_uri [] = []"
| "dedup_by_uri (w # ws) = w # dedup_by_uri (filter (\<lambda>v. uri v \<noteq> uri w) ws)"

subsection \<open>The recency history\<close>

lemma well_kept_recorded:
  assumes idem: "\<And>w. String_toLowerCase rt (String_toLowerCase rt w) = String_toLowerCase rt w"
    and "well_kept rt h"
  shows "well_kept rt (recorded rt w h)"
  using assms(2)
  by (auto simp: well_kept_def recorded_def Let_def idem list_all_iff dest: in_set_takeD)

lemma recorded_nonempty: "recorded rt w h \<noteq> []"
  by (simp add: recorded_def Let_def)

lemma recorded_first: "recorded rt w h ! 0 = JStr (String_toLowerCase rt w)"
  by (simp add: recorded_def Let_def)

lemma append_items_threw: "threw (append_items xs s) = list_ex to_string_throws xs"
  by (induction xs arbitrary: s) auto

lemma append_items_done:
  "\<not> list_ex to_string_throws xs \<Longrightarrow>
   append_items xs s = Done (s\<lparr>historyList := historyList s @ xs\<rparr>)"
  by (induction xs arbitrary: s) auto

lemma append_items_frame: "\<exists>hl. page_of (append_items xs s) = s\<lparr>historyList := hl\<rparr>"
proof (induction xs arbitrary: s)
  case Nil
  have "s = s\<lparr>historyList := historyList s\<rparr>" by simp
  then show ?case by (metis append_items.simps(1) page_of.simps(1))
next
  case (Cons x xs)
  show ?case
  proof (cases "to_string_throws x")
    case True
    have "s = s\<lparr>historyList := historyList s\<rparr>" by simp
    with True show ?thesis by (metis append_items.simps(2) page_of.simps(2))
  next
    case False
    from Cons[of "s\<lparr>historyList := historyList s @ [x]\<rparr>"] False
    show ?thesis by auto
  qed
qed

lemma renderHistory_frame:
  "\<exists>hid hl. page_of (renderHistory s) = s\<lparr>historySection_hidden := hid, historyList := hl\<rparr>"
proof -
  have same: "s = s\<lparr>historySection_hidden := historySection_hidden s, historyList := historyList s\<rparr>"
    by simp
  have hide: "s\<lparr>historySection_hidden := True\<rparr>
     = s\<lparr>historySection_hidden := True, historyList := historyList s\<rparr>"
    by simp
  show ?thesis
  proof (cases "load_history (localStorage s)")
    case (Inl e)
    then have "page_of (renderHistory s) = s" by (simp add: renderHistory_def)
    with same show ?thesis by metis
  next
    case (Inr history)
    show ?thesis
    proof (cases "js_length history")
      case (Inl e)
      with Inr have "page_of (renderHistory s) = s" by (simp add: renderHistory_def)
      with same show ?thesis by metis
    next
      case len: (Inr len)
      show ?thesis
      proof (cases "len = Some (JNum 0)")
        case True
        with Inr len have "page_of (renderHistory s) = s\<lparr>historySection_hidden := True\<rparr>"
          by (simp add: renderHistory_def)
        with hide show ?thesis by metis
      next
        case False
        show ?thesis
        proof (cases history)
          case (JArr xs)
          obtain hl where "page_of (append_items xs (s\<lparr>historySection_hidden := False, historyList := []\<rparr>))
              = s\<lparr>historySection_hidden := False, historyList := []\<rparr>\<lparr>historyList := hl\<rparr>"
            using append_items_frame by blast
          with Inr len False JArr show ?thesis
            by (auto simp: renderHistory_def Let_def)
        qed (use Inr len False in \<open>auto simp: renderHistory_def Let_def\<close>)
      qed
    qed
  qed
qed

lemma renderHistory_store: "localStorage (page_of (renderHistory s)) = localStorage s"
  using renderHistory_frame[of s] by auto

lemma renderHistory_array:
  assumes "localStorage s = JSONText (JArr h)" "h \<noteq> []"
  shows "threw (renderHistory s) = list_ex to_string_throws h"
  using assms by (simp add: renderHistory_def load_history_def Let_def append_items_threw)

lemma updateHistory_threw:
  "threw (updateHistory rt w s) = (\<not> history_recordable rt w (localStorage s))"
proof (cases "load_history (localStorage s)")
  case (Inl e)
  then show ?thesis by (simp add: updateHistory_def history_recordable_def)
next
  case (Inr history)
  show ?thesis
  proof (cases history)
    case (JArr xs)
    with Inr show ?thesis
      by (simp add: updateHistory_def history_recordable_def
          renderHistory_array[where h = "recorded rt w xs"] recorded_nonempty)
  qed (use Inr in \<open>simp_all add: updateHistory_def history_recordable_def\<close>)
qed

lemma updateHistory_store:
  "store_after (updateHistory rt w s) = store_after_call rt w (Resolved r) (localStorage s)"
proof -
  have sa: "store_after x = localStorage (page_of x)" for x by (cases x) simp_all
  show ?thesis
  proof (cases "load_history (localStorage s)")
    case (Inl e)
    then show ?thesis by (simp add: updateHistory_def store_after_call_def)
  next
    case (Inr history)
    show ?thesis
    proof (cases history)
      case (JArr xs)
      with Inr show ?thesis
        by (simp add: updateHistory_def store_after_call_def sa renderHistory_store)
    qed (use Inr in \<open>simp_all add: updateHistory_def store_after_call_def\<close>)
  qed
qed

lemma updateHistory_store_array:
  assumes "load_history (localStorage s) = Inr (JArr h)"
  shows "store_after (updateHistory rt w s) = JSONText (JArr (recorded rt w h))"
proof -
  have sa: "store_after x = localStorage (page_of x)" for x by (cases x) simp_all
  from assms show ?thesis by (simp add: updateHistory_def sa renderHistory_store)
qed

lemma updateHistory_frame:
  "\<exists>st hid hl. page_of (updateHistory rt w s)
     = s\<lparr>localStorage := st, historySection_hidden := hid, historyList := hl\<rparr>"
proof -
  have same: "s = s\<lparr>localStorage := localStorage s,
      historySection_hidden := historySection_hidden s, historyList := historyList s\<rparr>"
    by simp
  show ?thesis
  proof (cases "load_history (localStorage s)")
    case (Inl e)
    then have "page_of (updateHistory rt w s) = s" by (simp add: updateHistory_def)
    with same show ?thesis by metis
  next
    case (Inr history)
    show ?thesis
    proof (cases history)
      case (JArr xs)
      obtain hid hl where
        "page_of (renderHistory (s\<lparr>localStorage := JSONText (JArr (recorded rt w xs))\<rparr>))
         = s\<lparr>localStorage := JSONText (JArr (recorded rt w xs))\<rparr>
            \<lparr>historySection_hidden := hid, historyList := hl\<rparr>"
        using renderHistory_frame by blast
      with Inr JArr show ?thesis by (auto simp: updateHistory_def)
    next
      case JNull
      with Inr have "page_of (updateHistory rt w s) = s" by (simp add: updateHistory_def)
      with same show ?thesis by metis
    next
      case (JBool b)
      with Inr have "page_of (updateHistory rt w s) = s" by (simp add: updateHistory_def)
      with same show ?thesis by metis
    next
      case (JNum n)
      with Inr have "page_of (updateHistory rt w s) = s" by (simp add: updateHistory_def)
      with same show ?thesis by metis
    next
      case (JStr n)
      with Inr have "page_of (updateHistory rt w s) = s" by (simp add: updateHistory_def)
      with same show ?thesis by metis
    next
      case (JObj n)
      with Inr have "page_of (updateHistory rt w s) = s" by (simp add: updateHistory_def)
      with same show ?thesis by metis
    qed
  qed
qed

lemma updateHistory_keeps:
  "searchInput (page_of (updateHistory rt w s)) = searchInput s"
  "resultsContainer (page_of (updateHistory rt w s)) = resultsContainer s"
  "loader_hidden (page_of (updateHistory rt w s)) = loader_hidden s"
  "errorContainer_text (page_of (updateHistory rt w s)) = errorContainer_text s"
  "errorContainer_hidden (page_of (updateHistory rt w s)) = errorContainer_hidden s"
  "wordOfTheDay_hidden (page_of (updateHistory rt w s)) = wordOfTheDay_hidden s"
  "ai (page_of (updateHistory rt w s)) = ai s"
  "calls (page_of (updateHistory rt w s)) = calls s"
  using updateHistory_frame[of rt w s] by auto

lemma lower_words_do_not_throw:
  "list_all (is_lower_word rt) xs \<Longrightarrow> \<not> list_ex to_string_throws xs"
proof (induction xs)
  case Nil
  then show ?case by simp
next
  case (Cons x xs)
  then show ?case by (cases x) auto
qed

lemma well_kept_recordable:
  assumes idem: "\<And>w. String_toLowerCase rt (String_toLowerCase rt w) = String_toLowerCase rt w"
    and "load_history it = Inr (JArr h)" "well_kept rt h"
  shows "history_recordable rt w it"
proof -
  from well_kept_recorded[OF idem assms(3), of w]
  have "list_all (is_lower_word rt) (recorded rt w h)" by (simp add: well_kept_def)
  then have "\<not> list_ex to_string_throws (recorded rt w h)"
    by (rule lower_words_do_not_throw)
  with assms(2) show ?thesis by (simp add: history_recordable_def)
qed

lemma reachable_store_kept:
  assumes idem: "\<And>w. String_toLowerCase rt (String_toLowerCase rt w) = String_toLowerCase rt w"
  shows "reachable_store rt it \<Longrightarrow> \<exists>h. load_history it = Inr (JArr h) \<and> well_kept rt h"
proof (induction rule: reachable_store.induct)
  case fresh
  then show ?case by (simp add: load_history_def well_kept_def)
next
  case (updated s w)
  then obtain h where h: "load_history (localStorage s) = Inr (JArr h)" "well_kept rt h"
    by blast
  have "store_after (updateHistory rt w s) = JSONText (JArr (recorded rt w h))"
    using h(1) by (rule updateHistory_store_array)
  with well_kept_recorded[OF idem h(2), of w] show ?case
    by (simp add: load_history_def)
qed

lemma ci_norm_lower_words: "list_all (is_lower_word rt) xs \<Longrightarrow> map (ci_norm rt) xs = xs"
proof (induction xs)
  case Nil
  then show ?case by simp
next
  case (Cons x xs)
  then show ?case by (cases x) auto
qed

lemma well_kept_no_ci_duplicates: "well_kept rt h \<Longrightarrow> no_ci_duplicates rt h"
  by (simp add: well_kept_def no_ci_duplicates_def ci_norm_lower_words)

lemma reachable_update_all:
  "reachable_store rt (localStorage s) \<Longrightarrow> reachable_store rt (store_after (update_all rt ws s))"
proof (induction ws arbitrary: s)
  case Nil
  then show ?case by simp
next
  case (Cons w ws)
  from Cons.prems have r: "reachable_store rt (store_after (updateHistory rt w s))"
    by (rule reachable_store.updated)
  show ?case
  proof (cases "updateHistory rt w s")
    case (Done s1)
    with r Cons.IH[of s1] show ?thesis by simp
  next
    case (Threw e s1)
    with r show ?thesis by simp
  qed
qed

lemma latin1_lower_idem: "latin1_lower (latin1_lower c) = latin1_lower c"
  unfolding latin1_lower_def
  by (auto simp: word_le_nat_alt unat_word_ariths unat_arith_simps)

text \<open>
  Claim C5. Let the runtime's \<^verbatim>\<open>toLowerCase\<close> leave its own results unchanged, as
  ECMAScript's does. From every stored history that the script can have written, and for
  every word, \<^verbatim>\<open>updateHistory\<close> returns normally and the history then stored has no
  two entries that are equal case-insensitively, has at most five entries and has the
  lower-cased word at index 0. Where \<^verbatim>\<open>Run\<close>, \<^verbatim>\<open>run\<close> and \<^verbatim>\<open>RUN\<close> are lower-cased
  to \<^verbatim>\<open>run\<close>, recording them on a page with no stored history leaves exactly
  \<^verbatim>\<open>["run"]\<close>.
\<close>

theorem record_keeps_history:
  assumes "\<And>v. String_toLowerCase rt (String_toLowerCase rt v) = String_toLowerCase rt v"
    and "reachable_store rt (localStorage s)"
  shows "(\<exists>s' h. updateHistory rt w s = Done s'
            \<and> load_history (localStorage s') = Inr (JArr h)
            \<and> no_ci_duplicates rt h \<and> length h \<le> 5 \<and> 0 < length h
            \<and> h ! 0 = JStr (String_toLowerCase rt w))
         \<and> (String_toLowerCase rt (js ''Run'') = js ''run''
              \<and> String_toLowerCase rt (js ''run'') = js ''run''
              \<and> String_toLowerCase rt (js ''RUN'') = js ''run'' \<longrightarrow>
             \<not> threw (update_all rt [js ''Run'', js ''run'', js ''RUN''] quiet_page)
             \<and> store_after (update_all rt [js ''Run'', js ''run'', js ''RUN''] quiet_page)
                 = JSONText (JArr [JStr (js ''run'')]))"
proof -
  obtain h where h: "load_history (localStorage s) = Inr (JArr h)" "well_kept rt h"
    using reachable_store_kept[OF assms] by blast
  have wk: "well_kept rt (recorded rt w h)" by (rule well_kept_recorded[OF assms(1) h(2)])
  have "\<not> threw (updateHistory rt w s)"
    using well_kept_recordable[OF assms(1) h] by (simp add: updateHistory_threw)
  then obtain s' where d: "updateHistory rt w s = Done s'"
    by (cases "updateHistory rt w s") auto
  from updateHistory_store_array[OF h(1), of rt w] d
  have st: "localStorage s' = JSONText (JArr (recorded rt w h))" by simp
  have first: "\<exists>s' h. updateHistory rt w s = Done s'
            \<and> load_history (localStorage s') = Inr (JArr h)
            \<and> no_ci_duplicates rt h \<and> length h \<le> 5 \<and> 0 < length h
            \<and> h ! 0 = JStr (String_toLowerCase rt w)"
    using d st wk well_kept_no_ci_duplicates[OF wk]
      recorded_nonempty[of rt w h] recorded_first[of rt w h]
    by (simp add: load_history_def well_kept_def)
  have three: "\<not> threw (update_all rt [js ''Run'', js ''run'', js ''RUN''] quiet_page)
             \<and> store_after (update_all rt [js ''Run'', js ''run'', js ''RUN''] quiet_page)
                 = JSONText (JArr [JStr (js ''run'')])"
    if "String_toLowerCase rt (js ''Run'') = js ''run''"
      "String_toLowerCase rt (js ''run'') = js ''run''"
      "String_toLowerCase rt (js ''RUN'') = js ''run''"
    using that
    by (simp add: updateHistory_def renderHistory_def load_history_def recorded_def
        quiet_page_def Let_def)
  from first three show ?thesis by blast
qed

theorem record_keeps_history_witness:
  "(\<forall>v. String_toLowerCase sample_runtime (String_toLowerCase sample_runtime v)
        = String_toLowerCase sample_runtime v)
   \<and> reachable_store sample_runtime
       (store_after (update_all sample_runtime
          [js ''alpha'', js ''beta'', js ''gamma'', js ''delta'', 0x00E9 # js ''cole'']
          quiet_page))
   \<and> (\<exists>s' h. updateHistory sample_runtime (0x00C9 # js ''COLE'')
               (page_of (update_all sample_runtime
                  [js ''alpha'', js ''beta'', js ''gamma'', js ''delta'', 0x00E9 # js ''cole'']
                  quiet_page)) = Done s'
            \<and> load_history (localStorage s') = Inr (JArr h)
            \<and> no_ci_duplicates sample_runtime h \<and> length h \<le> 5 \<and> 0 < length h
            \<and> h ! 0 = JStr (String_toLowerCase sample_runtime (0x00C9 # js ''COLE'')))
   \<and> store_after (updateHistory sample_runtime (0x00C9 # js ''COLE'')
               (page_of (update_all sample_runtime
                  [js ''alpha'', js ''beta'', js ''gamma'', js ''delta'', 0x00E9 # js ''cole'']
                  quiet_page)))
       = JSONText (JArr [JStr (0x00E9 # js ''cole''), JStr (js ''delta''), JStr (js ''gamma''),
                         JStr (js ''beta''), JStr (js ''alpha'')])
   \<and> store_after (updateHistory sample_runtime (js ''Zeta'')
               (page_of (update_all sample_runtime
                  [js ''alpha'', js ''beta'', js ''gamma'', js ''delta'', 0x00E9 # js ''cole'']
                  quiet_page)))
       = JSONText (JArr [JStr (js ''zeta''), JStr (0x00E9 # js ''cole''), JStr (js ''delta''),
                         JStr (js ''gamma''), JStr (js ''beta'')])
   \<and> String_toLowerCase sample_runtime (js ''Run'') = js ''run''
   \<and> String_toLowerCase sample_runtime (js ''run'') = js ''run''
   \<and> String_toLowerCase sample_runtime (js ''RUN'') = js ''run''
   \<and> store_after (update_all sample_runtime [js ''Run'', js ''run'', js ''RUN''] quiet_page)
       = JSONText (JArr [JStr (js ''run'')])"
proof -
  let ?ws = "[js ''alpha'', js ''beta'', js ''gamma'', js ''delta'', 0x00E9 # js ''cole'']"
  let ?p = "page_of (update_all sample_runtime ?ws quiet_page)"
  have idem: "String_toLowerCase sample_runtime (String_toLowerCase sample_runtime v)
        = String_toLowerCase sample_runtime v" for v
    by (simp add: sample_runtime_def latin1_lower_idem)
  have sa: "store_after x = localStorage (page_of x)" for x by (cases x) simp_all
  have "reachable_store sample_runtime (localStorage quiet_page)"
    by (simp add: quiet_page_def reachable_store.fresh)
  then have r0: "reachable_store sample_runtime (store_after (update_all sample_runtime ?ws quiet_page))"
    by (rule reachable_update_all)
  then have r: "reachable_store sample_runtime (localStorage ?p)" by (simp add: sa)
  from record_keeps_history[OF idem r, of "0x00C9 # js ''COLE''"]
  have ex: "\<exists>s' h. updateHistory sample_runtime (0x00C9 # js ''COLE'') ?p = Done s'
            \<and> load_history (localStorage s') = Inr (JArr h)
            \<and> no_ci_duplicates sample_runtime h \<and> length h \<le> 5 \<and> 0 < length h
            \<and> h ! 0 = JStr (String_toLowerCase sample_runtime (0x00C9 # js ''COLE''))"
    by blast
  have e1: "store_after (updateHistory sample_runtime (0x00C9 # js ''COLE'') ?p)
       = JSONText (JArr [JStr (0x00E9 # js ''cole''), JStr (js ''delta''), JStr (js ''gamma''),
                         JStr (js ''beta''), JStr (js ''alpha'')])"
    by code_simp
  have e2: "store_after (updateHistory sample_runtime (js ''Zeta'') ?p)
       = JSONText (JArr [JStr (js ''zeta''), JStr (0x00E9 # js ''cole''), JStr (js ''delta''),
                         JStr (js ''gamma''), JStr (js ''beta'')])"
    by code_simp
  have l: "String_toLowerCase sample_runtime (js ''Run'') = js ''run''"
    "String_toLowerCase sample_runtime (js ''run'') = js ''run''"
    "String_toLowerCase sample_runtime (js ''RUN'') = js ''run''"
    by code_simp+
  from record_keeps_history[OF idem r, of "js ''Run''"] l
  have e3: "store_after (update_all sample_runtime [js ''Run'', js ''run'', js ''RUN''] quiet_page)
       = JSONText (JArr [JStr (js ''run'')])"
    by blast
  from idem r0 ex e1 e2 l e3 show ?thesis by blast
qed

subsection \<open>The paths through the two handlers\<close>

lemma dropWhile_all_iff: "(\<forall>c \<in> set (dropWhile P q). P c) \<longleftrightarrow> dropWhile P q = []"
proof
  assume all: "\<forall>c \<in> set (dropWhile P q). P c"
  show "dropWhile P q = []"
  proof (rule ccontr)
    assume ne: "dropWhile P q \<noteq> []"
    then have "\<not> P (hd (dropWhile P q))" by (rule hd_dropWhile)
    moreover from ne have "hd (dropWhile P q) \<in> set (dropWhile P q)" by (rule hd_in_set)
    ultimately show False using all by blast
  qed
next
  assume e: "dropWhile P q = []"
  show "\<forall>c \<in> set (dropWhile P q). P c" unfolding e by simp
qed

lemma trim_empty_iff: "trim q = [] \<longleftrightarrow> list_all is_ws q"
proof -
  have "trim q = [] \<longleftrightarrow> (\<forall>c \<in> set (dropWhile is_ws q). is_ws c)"
    by (simp add: trim_def)
  also have "\<dots> \<longleftrightarrow> dropWhile is_ws q = []"
    by (rule dropWhile_all_iff)
  also have "\<dots> \<longleftrightarrow> list_all is_ws q"
    by (simp add: list_all_iff)
  finally show ?thesis .
qed

lemma submit_begin_cases:
  obtains
    (blank) "trim (searchInput s) = []"
      "submit_begin s = Finished (showError empty_query_message s)"
  | (uninit) "trim (searchInput s) \<noteq> []" "\<not> ai s"
      "submit_begin s = Finished (showError not_initialized_message s)"
  | (called) s0 where "trim (searchInput s) \<noteq> []" "ai s"
      "submit_begin s = Awaiting (trim (searchInput s)) s0"
      "wordOfTheDay_hidden s0" "errorContainer_hidden s0" "resultsContainer s0 = Empty"
      "\<not> loader_hidden s0" "localStorage s0 = localStorage s"
      "calls s0 = calls s @ [trim (searchInput s)]" "ai s0"
  by (cases "trim (searchInput s) = []"; cases "ai s")
     (auto simp: submit_begin_def Let_def clearResults_def showLoading_def)

lemma submit_begin_grounded_cases:
  obtains
    (blank) "trim (searchInput s) = []"
      "submit_begin_grounded s = Finished (showError_grounded empty_query_message s)"
  | (uninit) "trim (searchInput s) \<noteq> []" "\<not> ai s"
      "submit_begin_grounded s = Finished (showError_grounded not_initialized_message s)"
  | (called) s0 where "trim (searchInput s) \<noteq> []" "ai s"
      "submit_begin_grounded s = Awaiting (trim (searchInput s)) s0"
      "errorContainer_hidden s0" "resultsContainer s0 = Empty"
      "\<not> loader_hidden s0" "localStorage s0 = localStorage s"
      "calls s0 = calls s @ [trim (searchInput s)]" "ai s0"
      "wordOfTheDay_hidden s0 = wordOfTheDay_hidden s"
  by (cases "trim (searchInput s) = []"; cases "ai s")
     (auto simp: submit_begin_grounded_def Let_def clearResults_def showLoading_def)

lemma updateHistory_done:
  "history_recordable rt w (localStorage s) \<Longrightarrow> \<exists>s1. updateHistory rt w s = Done s1"
  using updateHistory_threw[of rt w s] by (cases "updateHistory rt w s") auto

lemma updateHistory_thrown:
  "\<not> history_recordable rt w (localStorage s) \<Longrightarrow> \<exists>e s1. updateHistory rt w s = Threw e s1"
  using updateHistory_threw[of rt w s] by (cases "updateHistory rt w s") auto

lemma store_after_page: "localStorage (page_of x) = store_after x"
  by (cases x) simp_all

text \<open>
  How the second half of the handler ends: with the entry of the lookup written, or
  with the error shown on the page that \<^verbatim>\<open>updateHistory\<close> left.
\<close>

lemma submit_resume_cases:
  obtains
    (failed) "lookup_entry rt w settled (localStorage s) = None"
      "submit_resume rt w settled s
         = showLoading False (showError fetch_error_message
             (case settled of Rejected \<Rightarrow> s | Resolved r \<Rightarrow> page_of (updateHistory rt w s)))"
  | (shown) v where "lookup_entry rt w settled (localStorage s) = Some v"
      "submit_resume rt w settled s
         = showLoading False ((page_of (updateHistory rt w s))\<lparr>resultsContainer := Structured v\<rparr>)"
proof (cases settled)
  case Rejected
  then show ?thesis
    by (intro failed) (simp_all add: lookup_entry_def submit_resume_def submit_body_def)
next
  case (Resolved r)
  show ?thesis
  proof (cases "history_recordable rt w (localStorage s)")
    case False
    from updateHistory_thrown[OF False] obtain e s1
      where t: "updateHistory rt w s = Threw e s1" by blast
    with Resolved False show ?thesis
      by (intro failed) (simp_all add: lookup_entry_def submit_resume_def submit_body_def)
  next
    case True
    from updateHistory_done[OF True] obtain s1
      where d: "updateHistory rt w s = Done s1" by blast
    show ?thesis
    proof (cases "and_then (parse_reply r) (render_structured rt w)")
      case (Inl e)
      with Resolved True d show ?thesis
        by (intro failed)
           (auto simp: lookup_entry_def submit_resume_def submit_body_def and_then_def
              split: sum.splits)
    next
      case (Inr v)
      with Resolved True d show ?thesis
        by (intro shown[of v])
           (auto simp: lookup_entry_def submit_resume_def submit_body_def and_then_def
              split: sum.splits)
    qed
  qed
qed

lemma submit_resume_grounded_cases:
  obtains
    (failed) "lookup_entry_grounded rt w settled (localStorage s) = None"
      "submit_resume_grounded rt w settled s
         = showLoading False (showError_grounded fetch_error_message_grounded
             (case settled of Rejected \<Rightarrow> s | Resolved r \<Rightarrow> page_of (updateHistory rt w s)))"
  | (shown) v where "lookup_entry_grounded rt w settled (localStorage s) = Some v"
      "submit_resume_grounded rt w settled s
         = showLoading False ((page_of (updateHistory rt w s))\<lparr>resultsContainer := Grounded v\<rparr>)"
proof (cases settled)
  case Rejected
  then show ?thesis
    by (intro failed)
       (simp_all add: lookup_entry_grounded_def submit_resume_grounded_def
          submit_body_grounded_def)
next
  case (Resolved r)
  show ?thesis
  proof (cases "history_recordable rt w (localStorage s)")
    case False
    from updateHistory_thrown[OF False] obtain e s1
      where t: "updateHistory rt w s = Threw e s1" by blast
    with Resolved False show ?thesis
      by (intro failed)
         (simp_all add: lookup_entry_grounded_def submit_resume_grounded_def
            submit_body_grounded_def)
  next
    case True
    from updateHistory_done[OF True] obtain s1
      where d: "updateHistory rt w s = Done s1" by blast
    show ?thesis
    proof (cases "render_grounded w r")
      case (Inl e)
      with Resolved True d show ?thesis
        by (intro failed)
           (auto simp: lookup_entry_grounded_def submit_resume_grounded_def
              submit_body_grounded_def)
    next
      case (Inr v)
      with Resolved True d show ?thesis
        by (intro shown[of v])
           (auto simp: lookup_entry_grounded_def submit_resume_grounded_def
              submit_body_grounded_def)
    qed
  qed
qed

lemma store_after_call_update:
  "localStorage (case settled of Rejected \<Rightarrow> s | Resolved r \<Rightarrow> page_of (updateHistory rt w s))
     = store_after_call rt w settled (localStorage s)"
proof (cases settled)
  case Rejected
  then show ?thesis by (simp add: store_after_call_def)
next
  case (Resolved r)
  then show ?thesis
    using updateHistory_store[of rt w s r] by (simp add: store_after_page)
qed

lemma entry_needs_resolved:
  "lookup_entry rt w settled it = Some v \<Longrightarrow> \<exists>r. settled = Resolved r"
  "lookup_entry_grounded rt w settled' it = Some v' \<Longrightarrow> \<exists>r. settled' = Resolved r"
  by (cases settled; simp add: lookup_entry_def)
     (cases settled'; simp add: lookup_entry_grounded_def)

text \<open>What the second half of the handler leaves on the page, field by field.\<close>

lemma submit_resume_page:
  "resultsContainer (submit_resume rt w settled s)
     = (case lookup_entry rt w settled (localStorage s) of
          None \<Rightarrow> Empty | Some v \<Rightarrow> Structured v)"
  "localStorage (submit_resume rt w settled s) = store_after_call rt w settled (localStorage s)"
  "errorContainer_hidden (submit_resume rt w settled s)
     = (lookup_entry rt w settled (localStorage s) \<noteq> None \<and> errorContainer_hidden s)"
  "wordOfTheDay_hidden (submit_resume rt w settled s)
     = (lookup_entry rt w settled (localStorage s) \<noteq> None \<and> wordOfTheDay_hidden s)"
  "errorContainer_text (submit_resume rt w settled s)
     = (if lookup_entry rt w settled (localStorage s) = None then fetch_error_message
        else errorContainer_text s)"
  "loader_hidden (submit_resume rt w settled s)"
  "calls (submit_resume rt w settled s) = calls s"
  "ai (submit_resume rt w settled s) = ai s"
proof -
  have r: "calls (case settled of Rejected \<Rightarrow> s | Resolved r \<Rightarrow> page_of (updateHistory rt w s))
      = calls s"
    "ai (case settled of Rejected \<Rightarrow> s | Resolved r \<Rightarrow> page_of (updateHistory rt w s)) = ai s"
    by (cases settled; simp add: updateHistory_keeps)+
  note k = updateHistory_keeps[of rt w s]
  show "resultsContainer (submit_resume rt w settled s)
     = (case lookup_entry rt w settled (localStorage s) of
          None \<Rightarrow> Empty | Some v \<Rightarrow> Structured v)"
    by (rule submit_resume_cases[of rt w settled s])
       (simp_all add: showLoading_def showError_def)
  show "localStorage (submit_resume rt w settled s)
      = store_after_call rt w settled (localStorage s)"
  proof (rule submit_resume_cases[of rt w settled s])
    assume "submit_resume rt w settled s
         = showLoading False (showError fetch_error_message
             (case settled of Rejected \<Rightarrow> s | Resolved r \<Rightarrow> page_of (updateHistory rt w s)))"
    then show ?thesis
      using store_after_call_update[where settled = settled and s = s and rt = rt and w = w]
      by (simp add: showLoading_def showError_def)
  next
    fix v
    assume e: "lookup_entry rt w settled (localStorage s) = Some v"
      and "submit_resume rt w settled s
         = showLoading False ((page_of (updateHistory rt w s))\<lparr>resultsContainer := Structured v\<rparr>)"
    moreover from entry_needs_resolved(1)[OF e] obtain r where "settled = Resolved r" by blast
    ultimately show ?thesis
      using store_after_call_update[where settled = settled and s = s and rt = rt and w = w]
      by (simp add: showLoading_def)
  qed
  show "errorContainer_hidden (submit_resume rt w settled s)
     = (lookup_entry rt w settled (localStorage s) \<noteq> None \<and> errorContainer_hidden s)"
    by (rule submit_resume_cases[of rt w settled s])
       (simp_all add: showLoading_def showError_def k)
  show "wordOfTheDay_hidden (submit_resume rt w settled s)
     = (lookup_entry rt w settled (localStorage s) \<noteq> None \<and> wordOfTheDay_hidden s)"
    by (rule submit_resume_cases[of rt w settled s])
       (simp_all add: showLoading_def showError_def k)
  show "errorContainer_text (submit_resume rt w settled s)
     = (if lookup_entry rt w settled (localStorage s) = None then fetch_error_message
        else errorContainer_text s)"
    by (rule submit_resume_cases[of rt w settled s])
       (simp_all add: showLoading_def showError_def k)
  show "loader_hidden (submit_resume rt w settled s)"
    by (rule submit_resume_cases[of rt w settled s])
       (simp_all add: showLoading_def showError_def)
  show "calls (submit_resume rt w settled s) = calls s"
    by (rule submit_resume_cases[of rt w settled s])
       (simp_all add: showLoading_def showError_def k r)
  show "ai (submit_resume rt w settled s) = ai s"
    by (rule submit_resume_cases[of rt w settled s])
       (simp_all add: showLoading_def showError_def k r)
qed

lemma submit_resume_grounded_page:
  "resultsContainer (submit_resume_grounded rt w settled s)
     = (case lookup_entry_grounded rt w settled (localStorage s) of
          None \<Rightarrow> Empty | Some v \<Rightarrow> Grounded v)"
  "localStorage (submit_resume_grounded rt w settled s)
     = store_after_call rt w settled (localStorage s)"
  "errorContainer_hidden (submit_resume_grounded rt w settled s)
     = (lookup_entry_grounded rt w settled (localStorage s) \<noteq> None \<and> errorContainer_hidden s)"
  "errorContainer_text (submit_resume_grounded rt w settled s)
     = (if lookup_entry_grounded rt w settled (localStorage s) = None
        then fetch_error_message_grounded else errorContainer_text s)"
  "loader_hidden (submit_resume_grounded rt w settled s)"
  "calls (submit_resume_grounded rt w settled s) = calls s"
  "ai (submit_resume_grounded rt w settled s) = ai s"
  "wordOfTheDay_hidden (submit_resume_grounded rt w settled s) = wordOfTheDay_hidden s"
proof -
  have r: "calls (case settled of Rejected \<Rightarrow> s | Resolved r \<Rightarrow> page_of (updateHistory rt w s))
      = calls s"
    "ai (case settled of Rejected \<Rightarrow> s | Resolved r \<Rightarrow> page_of (updateHistory rt w s)) = ai s"
    "wordOfTheDay_hidden
       (case settled of Rejected \<Rightarrow> s | Resolved r \<Rightarrow> page_of (updateHistory rt w s))
      = wordOfTheDay_hidden s"
    by (cases settled; simp add: updateHistory_keeps)+
  note k = updateHistory_keeps[of rt w s]
  show "resultsContainer (submit_resume_grounded rt w settled s)
     = (case lookup_entry_grounded rt w settled (localStorage s) of
          None \<Rightarrow> Empty | Some v \<Rightarrow> Grounded v)"
    by (rule submit_resume_grounded_cases[of rt w settled s])
       (simp_all add: showLoading_def showError_grounded_def)
  show "localStorage (submit_resume_grounded rt w settled s)
      = store_after_call rt w settled (localStorage s)"
  proof (rule submit_resume_grounded_cases[of rt w settled s])
    assume "submit_resume_grounded rt w settled s
         = showLoading False (showError_grounded fetch_error_message_grounded
             (case settled of Rejected \<Rightarrow> s | Resolved r \<Rightarrow> page_of (updateHistory rt w s)))"
    then show ?thesis
      using store_after_call_update[where settled = settled and s = s and rt = rt and w = w]
      by (simp add: showLoading_def showError_grounded_def)
  next
    fix v
    assume e: "lookup_entry_grounded rt w settled (localStorage s) = Some v"
      and "submit_resume_grounded rt w settled s
         = showLoading False ((page_of (updateHistory rt w s))\<lparr>resultsContainer := Grounded v\<rparr>)"
    moreover from entry_needs_resolved(2)[OF e] obtain r where "settled = Resolved r" by blast
    ultimately show ?thesis
      using store_after_call_update[where settled = settled and s = s and rt = rt and w = w]
      by (simp add: showLoading_def)
  qed
  show "errorContainer_hidden (submit_resume_grounded rt w settled s)
     = (lookup_entry_grounded rt w settled (localStorage s) \<noteq> None \<and> errorContainer_hidden s)"
    by (rule submit_resume_grounded_cases[of rt w settled s])
       (simp_all add: showLoading_def showError_grounded_def k)
  show "errorContainer_text (submit_resume_grounded rt w settled s)
     = (if lookup_entry_grounded rt w settled (localStorage s) = None
        then fetch_error_message_grounded else errorContainer_text s)"
    by (rule submit_resume_grounded_cases[of rt w settled s])
       (simp_all add: showLoading_def showError_grounded_def k)
  show "loader_hidden (submit_resume_grounded rt w settled s)"
    by (rule submit_resume_grounded_cases[of rt w settled s])
       (simp_all add: showLoading_def showError_grounded_def)
  show "calls (submit_resume_grounded rt w settled s) = calls s"
    by (rule submit_resume_grounded_cases[of rt w settled s])
       (simp_all add: showLoading_def showError_grounded_def k r)
  show "ai (submit_resume_grounded rt w settled s) = ai s"
    by (rule submit_resume_grounded_cases[of rt w settled s])
       (simp_all add: showLoading_def showError_grounded_def k r)
  show "wordOfTheDay_hidden (submit_resume_grounded rt w settled s) = wordOfTheDay_hidden s"
    by (rule submit_resume_grounded_cases[of rt w settled s])
       (simp_all add: showLoading_def showError_grounded_def k r)
qed

subsection \<open>Queries that are rejected before the service is called\<close>

text \<open>
  Claim C6. When the query is empty or holds white space only, in every state of the
  page and in both files, the handler returns before the service call: no call is
  logged, the loader is not touched, the results are cleared and the error container
  shows the fixed text \<^verbatim>\<open>Please enter a word.\<close>
\<close>

theorem blank_query_rejected:
  assumes "list_all is_ws (searchInput s)"
  shows "submit_begin s = Finished (showError empty_query_message s)
    \<and> submit_begin_grounded s = Finished (showError_grounded empty_query_message s)
    \<and> calls (submit rt settled s) = calls s
    \<and> calls (submit_grounded rt settled' s) = calls s
    \<and> loader_hidden (submit rt settled s) = loader_hidden s
    \<and> loader_hidden (submit_grounded rt settled' s) = loader_hidden s
    \<and> resultsContainer (submit rt settled s) = Empty
    \<and> resultsContainer (submit_grounded rt settled' s) = Empty
    \<and> \<not> errorContainer_hidden (submit rt settled s)
    \<and> \<not> errorContainer_hidden (submit_grounded rt settled' s)
    \<and> errorContainer_text (submit rt settled s) = js ''Please enter a word.''
    \<and> errorContainer_text (submit_grounded rt settled' s) = js ''Please enter a word.''"
proof -
  from assms have blank: "trim (searchInput s) = []" by (simp add: trim_empty_iff)
  then have b: "submit_begin s = Finished (showError empty_query_message s)"
    and g: "submit_begin_grounded s = Finished (showError_grounded empty_query_message s)"
    by (simp_all add: submit_begin_def submit_begin_grounded_def)
  show ?thesis
    unfolding submit_def submit_grounded_def b g
    by (simp add: showError_def showError_grounded_def empty_query_message_def)
qed

theorem blank_query_rejected_witness:
  "list_all is_ws (searchInput (quiet_page\<lparr>searchInput := [0x00A0, 0x0020, 0x3000, 0x0009]\<rparr>))
   \<and> submit_begin (quiet_page\<lparr>searchInput := [0x00A0, 0x0020, 0x3000, 0x0009]\<rparr>)
       = Finished (showError empty_query_message
           (quiet_page\<lparr>searchInput := [0x00A0, 0x0020, 0x3000, 0x0009]\<rparr>))
   \<and> calls (submit sample_runtime (Resolved Unparseable)
        (quiet_page\<lparr>searchInput := [0x00A0, 0x0020, 0x3000, 0x0009]\<rparr>)) = []
   \<and> errorContainer_text (submit sample_runtime (Resolved Unparseable)
        (quiet_page\<lparr>searchInput := [0x00A0, 0x0020, 0x3000, 0x0009]\<rparr>))
       = js ''Please enter a word.''"
proof -
  let ?p = "quiet_page\<lparr>searchInput := [0x00A0, 0x0020, 0x3000, 0x0009]\<rparr>"
  have h: "list_all is_ws (searchInput ?p)"
    by (simp add: is_ws_def)
  have c: "calls ?p = []"
    by (simp add: quiet_page_def)
  note t = blank_query_rejected[OF h, where rt = sample_runtime
      and settled = "Resolved Unparseable" and settled' = Rejected]
  from t have 1: "submit_begin ?p = Finished (showError empty_query_message ?p)" by blast
  from t have 2: "calls (submit sample_runtime (Resolved Unparseable) ?p) = calls ?p" by blast
  from t have 3: "errorContainer_text (submit sample_runtime (Resolved Unparseable) ?p)
      = js ''Please enter a word.''" by blast
  from h 1 2 3 c show ?thesis by simp
qed

text \<open>
  Claim C10. When the client was not constructed at start-up (\<^verbatim>\<open>ai\<close> is
  \<^verbatim>\<open>undefined\<close>), a submit with a query that is not blank shows the fixed text
  \<^verbatim>\<open>Gemini API is not initialized.\<close>, logs no service call and leaves the stored
  history as it was, in both files.
\<close>

theorem uninitialised_client_rejected:
  assumes "\<not> ai s" and "trim (searchInput s) \<noteq> []"
  shows "submit rt settled s = showError not_initialized_message s
    \<and> submit_grounded rt settled' s = showError_grounded not_initialized_message s
    \<and> calls (submit rt settled s) = calls s
    \<and> calls (submit_grounded rt settled' s) = calls s
    \<and> localStorage (submit rt settled s) = localStorage s
    \<and> localStorage (submit_grounded rt settled' s) = localStorage s
    \<and> \<not> errorContainer_hidden (submit rt settled s)
    \<and> \<not> errorContainer_hidden (submit_grounded rt settled' s)
    \<and> errorContainer_text (submit rt settled s) = js ''Gemini API is not initialized.''
    \<and> errorContainer_text (submit_grounded rt settled' s)
        = js ''Gemini API is not initialized.''
    \<and> \<not> ai (init_ai False s0)
    \<and> \<not> ai (init_ai_grounded False s0)"
proof -
  from assms have b: "submit_begin s = Finished (showError not_initialized_message s)"
    and g: "submit_begin_grounded s = Finished (showError_grounded not_initialized_message s)"
    by (simp_all add: submit_begin_def submit_begin_grounded_def)
  show ?thesis
    unfolding submit_def submit_grounded_def b g
    by (simp add: showError_def showError_grounded_def not_initialized_message_def
        init_ai_def init_ai_grounded_def)
qed

theorem uninitialised_client_rejected_witness:
  "\<not> ai (init_ai False (quiet_page\<lparr>searchInput := js ''cat''\<rparr>))
   \<and> trim (searchInput (init_ai False (quiet_page\<lparr>searchInput := js ''cat''\<rparr>))) \<noteq> []
   \<and> calls (submit sample_runtime (Resolved Unparseable)
        (init_ai False (quiet_page\<lparr>searchInput := js ''cat''\<rparr>))) = []
   \<and> localStorage (submit sample_runtime (Resolved Unparseable)
        (init_ai False (quiet_page\<lparr>searchInput := js ''cat''\<rparr>))) = NoItem
   \<and> errorContainer_text (submit sample_runtime (Resolved Unparseable)
        (init_ai False (quiet_page\<lparr>searchInput := js ''cat''\<rparr>)))
       = js ''Gemini API is not initialized.''"
proof -
  let ?p = "init_ai False (quiet_page\<lparr>searchInput := js ''cat''\<rparr>)"
  have a: "\<not> ai ?p" by (simp add: init_ai_def showError_def)
  have q: "trim (searchInput ?p) \<noteq> []" by code_simp
  have c: "calls ?p = []" "localStorage ?p = NoItem"
    by (simp_all add: init_ai_def showError_def quiet_page_def)
  note t = uninitialised_client_rejected[OF a q, where rt = sample_runtime
      and settled = "Resolved Unparseable" and settled' = Rejected and ?s0.0 = quiet_page]
  from t have 1: "calls (submit sample_runtime (Resolved Unparseable) ?p) = calls ?p" by blast
  from t have 2: "localStorage (submit sample_runtime (Resolved Unparseable) ?p)
      = localStorage ?p" by blast
  from t have 3: "errorContainer_text (submit sample_runtime (Resolved Unparseable) ?p)
      = js ''Gemini API is not initialized.''" by blast
  from a q 1 2 3 c show ?thesis by simp
qed

subsection \<open>When the history is written\<close>

lemma submit_store:
  "localStorage (submit rt settled s)
     = (if trim (searchInput s) = [] \<or> \<not> ai s then localStorage s
        else store_after_call rt (trim (searchInput s)) settled (localStorage s))"
proof (cases s rule: submit_begin_cases)
  case blank
  then show ?thesis by (simp add: submit_def showError_def)
next
  case uninit
  then show ?thesis by (simp add: submit_def showError_def)
next
  case (called s0)
  then show ?thesis by (simp add: submit_def submit_resume_page(2))
qed

lemma submit_grounded_store:
  "localStorage (submit_grounded rt settled s)
     = (if trim (searchInput s) = [] \<or> \<not> ai s then localStorage s
        else store_after_call rt (trim (searchInput s)) settled (localStorage s))"
proof (cases s rule: submit_begin_grounded_cases)
  case blank
  then show ?thesis by (simp add: submit_grounded_def showError_grounded_def)
next
  case uninit
  then show ?thesis by (simp add: submit_grounded_def showError_grounded_def)
next
  case (called s0)
  then show ?thesis by (simp add: submit_grounded_def submit_resume_grounded_page(2))
qed

text \<open>
  Claim C1 as stated fails: \<^verbatim>\<open>updateHistory(word)\<close> runs as soon as the service
  call has resolved, before the reply is read. With no stored history and the query
  \<^verbatim>\<open>cat\<close>, a structured reply that is not JSON (and a grounded reply without text)
  ends with the error shown and with \<^verbatim>\<open>["cat"]\<close> stored.
\<close>

theorem history_written_before_reply_is_read:
  "\<not> errorContainer_hidden
       (submit sample_runtime (Resolved Unparseable) (quiet_page\<lparr>searchInput := js ''cat''\<rparr>))
   \<and> errorContainer_text
       (submit sample_runtime (Resolved Unparseable) (quiet_page\<lparr>searchInput := js ''cat''\<rparr>))
       = fetch_error_message
   \<and> localStorage (quiet_page\<lparr>searchInput := js ''cat''\<rparr>) = NoItem
   \<and> localStorage
       (submit sample_runtime (Resolved Unparseable) (quiet_page\<lparr>searchInput := js ''cat''\<rparr>))
       = JSONText (JArr [JStr (js ''cat'')])
   \<and> \<not> errorContainer_hidden
         (submit_grounded sample_runtime
            (Resolved \<lparr>response_text = None, groundingChunks = None\<rparr>)
            (quiet_page\<lparr>searchInput := js ''cat''\<rparr>))
   \<and> localStorage
         (submit_grounded sample_runtime
            (Resolved \<lparr>response_text = None, groundingChunks = None\<rparr>)
            (quiet_page\<lparr>searchInput := js ''cat''\<rparr>))
       = JSONText (JArr [JStr (js ''cat'')])"
  by code_simp

text \<open>
  Claim C1, amended. The stored history after a lookup, in both files. It is left as it
  was when the query is blank, when the client is not initialised, when the service call
  is rejected, and when the stored entry does not read as an array (then
  \<^verbatim>\<open>updateHistory\<close> throws before it writes). In every other lookup the word is
  recorded as soon as the service call has resolved, whatever the reply is and whether
  or not reading it then fails. The second half of the handler does the same on
  whatever page it finds when the call settles, so also when lookups overlap.
\<close>

theorem stored_history_after_lookup:
  "localStorage (submit rt settled s)
     = (if trim (searchInput s) = [] \<or> \<not> ai s then localStorage s
        else case settled of
               Rejected \<Rightarrow> localStorage s
             | Resolved r \<Rightarrow>
                 (case load_history (localStorage s) of
                    Inr (JArr xs) \<Rightarrow> JSONText (JArr (recorded rt (trim (searchInput s)) xs))
                  | _ \<Rightarrow> localStorage s))
   \<and> localStorage (submit_grounded rt settled' s)
     = (if trim (searchInput s) = [] \<or> \<not> ai s then localStorage s
        else case settled' of
               Rejected \<Rightarrow> localStorage s
             | Resolved r \<Rightarrow>
                 (case load_history (localStorage s) of
                    Inr (JArr xs) \<Rightarrow> JSONText (JArr (recorded rt (trim (searchInput s)) xs))
                  | _ \<Rightarrow> localStorage s))
   \<and> localStorage (submit_resume rt w settled p)
     = (case settled of
          Rejected \<Rightarrow> localStorage p
        | Resolved r \<Rightarrow>
            (case load_history (localStorage p) of
               Inr (JArr xs) \<Rightarrow> JSONText (JArr (recorded rt w xs))
             | _ \<Rightarrow> localStorage p))
   \<and> localStorage (submit_resume_grounded rt w settled' p)
     = (case settled' of
          Rejected \<Rightarrow> localStorage p
        | Resolved r \<Rightarrow>
            (case load_history (localStorage p) of
               Inr (JArr xs) \<Rightarrow> JSONText (JArr (recorded rt w xs))
             | _ \<Rightarrow> localStorage p))"
  by (simp add: submit_store submit_grounded_store store_after_call_def
      submit_resume_page(2) submit_resume_grounded_page(2))

theorem stored_history_after_lookup_witness:
  "localStorage (submit sample_runtime Rejected
      (quiet_page\<lparr>searchInput := js '' Cat '', localStorage := JSONText (JArr [JStr (js ''dog'')])\<rparr>))
     = JSONText (JArr [JStr (js ''dog'')])
   \<and> localStorage (submit sample_runtime (Resolved Unparseable)
      (quiet_page\<lparr>searchInput := js '' Cat '', localStorage := JSONText (JArr [JStr (js ''dog'')])\<rparr>))
     = JSONText (JArr [JStr (js ''cat''), JStr (js ''dog'')])
   \<and> localStorage (submit sample_runtime (Resolved (JSONReply sample_entry))
      (quiet_page\<lparr>searchInput := js '' Cat '', localStorage := NotJSON\<rparr>))
     = NotJSON
   \<and> localStorage (submit_grounded sample_runtime (Resolved sample_grounded)
      (quiet_page\<lparr>searchInput := js '' Cat '', localStorage := JSONText (JArr [JStr (js ''dog'')])\<rparr>))
     = JSONText (JArr [JStr (js ''cat''), JStr (js ''dog'')])
   \<and> localStorage (submit_resume sample_runtime (js ''Cat'') (Resolved Unparseable)
      (quiet_page\<lparr>searchInput := js '' Cat '', localStorage := JSONText (JArr [JStr (js ''dog'')])\<rparr>))
     = JSONText (JArr [JStr (js ''cat''), JStr (js ''dog'')])"
proof -
  let ?p = "quiet_page\<lparr>searchInput := js '' Cat '',
      localStorage := JSONText (JArr [JStr (js ''dog'')])\<rparr>"
  let ?q = "quiet_page\<lparr>searchInput := js '' Cat '', localStorage := NotJSON\<rparr>"
  have w: "trim (searchInput ?p) = js ''Cat''" "trim (searchInput ?q) = js ''Cat''"
    "ai ?p" "ai ?q" by code_simp+
  have ne: "js ''Cat'' \<noteq> []" "ai quiet_page" by code_simp+
  have st: "localStorage ?p = JSONText (JArr [JStr (js ''dog'')])" "localStorage ?q = NotJSON"
    by simp_all
  have rec: "recorded sample_runtime (js ''Cat'') [JStr (js ''dog'')]
      = [JStr (js ''cat''), JStr (js ''dog'')]" by code_simp
  from stored_history_after_lookup[where rt = sample_runtime and settled = Rejected
      and settled' = "Resolved sample_grounded" and s = ?p and w = "js ''Cat''" and p = ?p]
  have 1: "localStorage (submit sample_runtime Rejected ?p) = JSONText (JArr [JStr (js ''dog'')])"
    and 4: "localStorage (submit_grounded sample_runtime (Resolved sample_grounded) ?p)
      = JSONText (JArr [JStr (js ''cat''), JStr (js ''dog'')])"
    unfolding w st by (simp_all add: ne load_history_def rec)
  from stored_history_after_lookup[where rt = sample_runtime
      and settled = "Resolved Unparseable" and settled' = Rejected and s = ?p
      and w = "js ''Cat''" and p = ?p]
  have 2: "localStorage (submit sample_runtime (Resolved Unparseable) ?p)
      = JSONText (JArr [JStr (js ''cat''), JStr (js ''dog'')])"
    and 5: "localStorage (submit_resume sample_runtime (js ''Cat'') (Resolved Unparseable) ?p)
      = JSONText (JArr [JStr (js ''cat''), JStr (js ''dog'')])"
    unfolding w st by (simp_all add: ne load_history_def rec)
  from stored_history_after_lookup[where rt = sample_runtime
      and settled = "Resolved (JSONReply sample_entry)" and settled' = Rejected and s = ?q
      and w = "js ''Cat''" and p = ?q]
  have 3: "localStorage (submit sample_runtime (Resolved (JSONReply sample_entry)) ?q) = NotJSON"
    unfolding w st by (simp add: ne load_history_def)
  from 1 2 3 4 5 show ?thesis by blast
qed

subsection \<open>The word-of-the-day section\<close>

lemma submit_ends:
  "wordOfTheDay_hidden (submit rt settled s) = (resultsContainer (submit rt settled s) \<noteq> Empty)"
  "errorContainer_hidden (submit rt settled s) = (resultsContainer (submit rt settled s) \<noteq> Empty)"
proof -
  have "wordOfTheDay_hidden (submit rt settled s) = (resultsContainer (submit rt settled s) \<noteq> Empty)
    \<and> errorContainer_hidden (submit rt settled s) = (resultsContainer (submit rt settled s) \<noteq> Empty)"
  proof (cases s rule: submit_begin_cases)
    case blank
    then show ?thesis by (simp add: submit_def showError_def)
  next
    case uninit
    then show ?thesis by (simp add: submit_def showError_def)
  next
    case (called s0)
    then show ?thesis
      by (cases "lookup_entry rt (trim (searchInput s)) settled (localStorage s0)")
         (simp_all add: submit_def submit_resume_page)
  qed
  then show "wordOfTheDay_hidden (submit rt settled s)
      = (resultsContainer (submit rt settled s) \<noteq> Empty)"
    and "errorContainer_hidden (submit rt settled s)
      = (resultsContainer (submit rt settled s) \<noteq> Empty)"
    by blast+
qed

text \<open>
  Claim C9 as stated fails (\<^verbatim>\<open>index.tsx\<close>): the path that renders an entry never
  hides the section again. With \<^verbatim>\<open>cat\<close> submitted and a blank query submitted while
  the call is in flight, \<^verbatim>\<open>showError\<close> shows the section; the reply for \<^verbatim>\<open>cat\<close>
  then renders its entry, and the lookup has succeeded with the section visible and
  the error still shown.
\<close>

theorem section_visible_beside_entry:
  "heading_of (resultsContainer (fst (run_events submit_begin (submit_resume sample_runtime)
      [TypeIn (js ''cat''), Submit, TypeIn [], Submit,
       Settle 0 (Resolved (JSONReply sample_entry))]
      (quiet_page, [])))) = Some (js ''cat'')
   \<and> \<not> wordOfTheDay_hidden (fst (run_events submit_begin (submit_resume sample_runtime)
      [TypeIn (js ''cat''), Submit, TypeIn [], Submit,
       Settle 0 (Resolved (JSONReply sample_entry))]
      (quiet_page, [])))
   \<and> \<not> errorContainer_hidden (fst (run_events submit_begin (submit_resume sample_runtime)
      [TypeIn (js ''cat''), Submit, TypeIn [], Submit,
       Settle 0 (Resolved (JSONReply sample_entry))]
      (quiet_page, [])))"
  by code_simp

text \<open>
  Claim C9, amended (\<^verbatim>\<open>index.tsx\<close>). The section is hidden when the service call is
  issued. It is shown again by every error: by the handler's early returns, and whenever
  the second half of the handler ends in the error state. A lookup that ends with an
  entry leaves the section as it finds it when the reply arrives. So after one lookup
  with nothing in between the section is hidden exactly when an entry is shown, and
  \<^verbatim>\<open>showError\<close> shows it from every state of the page: it is never removed for good.
\<close>

theorem word_of_the_day_section:
  "(submit_begin s = Awaiting w0 s0 \<longrightarrow> wordOfTheDay_hidden s0)
   \<and> (submit_begin s = Finished s1 \<longrightarrow> \<not> wordOfTheDay_hidden s1)
   \<and> wordOfTheDay_hidden (submit_resume rt w settled s)
       = (lookup_entry rt w settled (localStorage s) \<noteq> None \<and> wordOfTheDay_hidden s)
   \<and> errorContainer_hidden (submit_resume rt w settled s)
       = (lookup_entry rt w settled (localStorage s) \<noteq> None \<and> errorContainer_hidden s)
   \<and> resultsContainer (submit_resume rt w settled s)
       = (case lookup_entry rt w settled (localStorage s) of
            None \<Rightarrow> Empty | Some v \<Rightarrow> Structured v)
   \<and> wordOfTheDay_hidden (submit rt settled s)
       = (resultsContainer (submit rt settled s) \<noteq> Empty)
   \<and> errorContainer_hidden (submit rt settled s)
       = (resultsContainer (submit rt settled s) \<noteq> Empty)
   \<and> \<not> wordOfTheDay_hidden (showError message s)"
proof -
  have a: "submit_begin s = Awaiting w0 s0 \<longrightarrow> wordOfTheDay_hidden s0"
    by (rule submit_begin_cases[of s]) auto
  have b: "submit_begin s = Finished s1 \<longrightarrow> \<not> wordOfTheDay_hidden s1"
    by (rule submit_begin_cases[of s]) (auto simp: showError_def)
  have e: "\<not> wordOfTheDay_hidden (showError message s)" by (simp add: showError_def)
  from a b e submit_ends[of rt settled s] submit_resume_page(1,3,4)[of rt w settled s]
  show ?thesis by blast
qed

theorem word_of_the_day_section_witness:
  "submit_begin (quiet_page\<lparr>searchInput := js ''cat''\<rparr>)
     = Awaiting (js ''cat'') (quiet_page\<lparr>searchInput := js ''cat'', wordOfTheDay_hidden := True,
          loader_hidden := False, calls := [js ''cat'']\<rparr>)
   \<and> wordOfTheDay_hidden (quiet_page\<lparr>searchInput := js ''cat'', wordOfTheDay_hidden := True,
          loader_hidden := False, calls := [js ''cat'']\<rparr>)
   \<and> resultsContainer (submit sample_runtime (Resolved (JSONReply sample_entry))
        (quiet_page\<lparr>searchInput := js ''cat''\<rparr>)) \<noteq> Empty
   \<and> wordOfTheDay_hidden (submit sample_runtime (Resolved (JSONReply sample_entry))
        (quiet_page\<lparr>searchInput := js ''cat''\<rparr>))
   \<and> resultsContainer (submit sample_runtime Rejected
        (submit sample_runtime (Resolved (JSONReply sample_entry))
           (quiet_page\<lparr>searchInput := js ''cat''\<rparr>))) = Empty
   \<and> \<not> wordOfTheDay_hidden (submit sample_runtime Rejected
        (submit sample_runtime (Resolved (JSONReply sample_entry))
           (quiet_page\<lparr>searchInput := js ''cat''\<rparr>)))"
proof -
  let ?p = "quiet_page\<lparr>searchInput := js ''cat''\<rparr>"
  let ?b = "quiet_page\<lparr>searchInput := js ''cat'', wordOfTheDay_hidden := True,
          loader_hidden := False, calls := [js ''cat'']\<rparr>"
  let ?r = "submit sample_runtime (Resolved (JSONReply sample_entry)) ?p"
  have b: "submit_begin ?p = Awaiting (js ''cat'') ?b" by code_simp
  have ne: "resultsContainer ?r \<noteq> Empty" by code_simp
  have er: "resultsContainer (submit sample_runtime Rejected ?r) = Empty" by code_simp
  note t1 = word_of_the_day_section[where s = ?p and ?w0.0 = "js ''cat''" and ?s0.0 = ?b
      and ?s1.0 = ?p and rt = sample_runtime and w = "[]"
      and settled = "Resolved (JSONReply sample_entry)" and message = "[]"]
  note t2 = word_of_the_day_section[where s = ?r and ?w0.0 = "js ''cat''" and ?s0.0 = ?b
      and ?s1.0 = ?p and rt = sample_runtime and w = "[]"
      and settled = Rejected and message = "[]"]
  from t1 b have 1: "wordOfTheDay_hidden ?b" by blast
  from t1 ne have 2: "wordOfTheDay_hidden ?r" by blast
  from t2 er have 3: "\<not> wordOfTheDay_hidden (submit sample_runtime Rejected ?r)" by blast
  from b 1 ne 2 er 3 show ?thesis by blast
qed

subsection \<open>The heading of a rendered entry\<close>

lemma render_structured_heading:
  "render_structured rt w data = Inr v \<Longrightarrow> sv_heading v = w"
  by (auto simp: render_structured_def and_then_def split: sum.splits)

lemma lookup_entry_heading:
  "lookup_entry rt w settled it = Some v \<Longrightarrow> sv_heading v = w"
  by (auto simp: lookup_entry_def and_then_def render_structured_heading
      split: outcome.splits if_splits sum.splits)

lemma lookup_entry_grounded_heading:
  "lookup_entry_grounded rt w settled it = Some v \<Longrightarrow> gv_heading v = w"
  by (auto simp: lookup_entry_grounded_def render_grounded_def
      split: outcome.splits if_splits sum.splits option.splits)

lemma resume_heading:
  "resultsContainer (submit_resume rt w settled s) = Empty
   \<or> heading_of (resultsContainer (submit_resume rt w settled s)) = Some w"
  by (cases "lookup_entry rt w settled (localStorage s)")
     (simp_all add: submit_resume_page(1) lookup_entry_heading)

lemma resume_grounded_heading:
  "resultsContainer (submit_resume_grounded rt w settled s) = Empty
   \<or> heading_of (resultsContainer (submit_resume_grounded rt w settled s)) = Some w"
  by (cases "lookup_entry_grounded rt w settled (localStorage s)")
     (simp_all add: submit_resume_grounded_page(1) lookup_entry_grounded_heading)

lemma submit_heading:
  "resultsContainer (submit rt settled s) = Empty
   \<or> heading_of (resultsContainer (submit rt settled s)) = Some (trim (searchInput s))"
proof (cases s rule: submit_begin_cases)
  case blank
  then show ?thesis by (simp add: submit_def showError_def)
next
  case uninit
  then show ?thesis by (simp add: submit_def showError_def)
next
  case (called s0)
  then show ?thesis using resume_heading[of rt "trim (searchInput s)" settled s0]
    by (simp add: submit_def)
qed

lemma submit_grounded_heading:
  "resultsContainer (submit_grounded rt settled s) = Empty
   \<or> heading_of (resultsContainer (submit_grounded rt settled s)) = Some (trim (searchInput s))"
proof (cases s rule: submit_begin_grounded_cases)
  case blank
  then show ?thesis by (simp add: submit_grounded_def showError_grounded_def)
next
  case uninit
  then show ?thesis by (simp add: submit_grounded_def showError_grounded_def)
next
  case (called s0)
  then show ?thesis using resume_grounded_heading[of rt "trim (searchInput s)" settled s0]
    by (simp add: submit_grounded_def)
qed

text \<open>
  Claim C8 as stated fails: the query is written into \<^verbatim>\<open>innerHTML\<close> unescaped. For
  the query \<^verbatim>\<open><i>cat</i>\<close> the lookup succeeds and the heading reads \<^verbatim>\<open>cat\<close>, in
  both files.
\<close>

theorem markup_in_query_is_rendered:
  "trim (searchInput (quiet_page\<lparr>searchInput := js ''<i>cat</i>''\<rparr>)) = js ''<i>cat</i>''
   \<and> heading_shown (resultsContainer (submit sample_runtime (Resolved (JSONReply sample_entry))
        (quiet_page\<lparr>searchInput := js ''<i>cat</i>''\<rparr>))) = Some (js ''cat'')
   \<and> heading_shown (resultsContainer (submit_grounded sample_runtime (Resolved sample_grounded)
        (quiet_page\<lparr>searchInput := js ''<i>cat</i>''\<rparr>))) = Some (js ''cat'')
   \<and> js ''cat'' \<noteq> js ''<i>cat</i>''"
  by code_simp

text \<open>
  Claim C8, amended. Whenever a lookup ends with an entry in the results container, in
  either file and whatever the service replied, the string written into the heading of
  the entry is the text of the search input, trimmed and in its original case. It is
  written unescaped: where the query holds no \<^verbatim>\<open><\<close>, \<^verbatim>\<open>&\<close>, U+0000 or carriage
  return, the heading reads as the query. This holds for one lookup with nothing in
  between, and for the two halves of the handler taken apart: the word of a call is the
  trimmed input at the time of the submit, and an entry written when the call settles,
  on whatever page, has that word as heading.
\<close>

theorem heading_is_query:
  "(resultsContainer (submit rt settled s) \<noteq> Empty \<longrightarrow>
      heading_of (resultsContainer (submit rt settled s)) = Some (trim (searchInput s))
      \<and> (markup_free (trim (searchInput s)) \<longrightarrow>
           heading_shown (resultsContainer (submit rt settled s))
             = Some (trim (searchInput s))))
   \<and> (resultsContainer (submit_grounded rt settled' s) \<noteq> Empty \<longrightarrow>
      heading_of (resultsContainer (submit_grounded rt settled' s))
        = Some (trim (searchInput s))
      \<and> (markup_free (trim (searchInput s)) \<longrightarrow>
           heading_shown (resultsContainer (submit_grounded rt settled' s))
             = Some (trim (searchInput s))))
   \<and> (submit_begin s = Awaiting w0 s0 \<longrightarrow> w0 = trim (searchInput s))
   \<and> (submit_begin_grounded s = Awaiting w0 s0 \<longrightarrow> w0 = trim (searchInput s))
   \<and> (resultsContainer (submit_resume rt w settled p) \<noteq> Empty \<longrightarrow>
      heading_of (resultsContainer (submit_resume rt w settled p)) = Some w
      \<and> (markup_free w \<longrightarrow>
           heading_shown (resultsContainer (submit_resume rt w settled p)) = Some w))
   \<and> (resultsContainer (submit_resume_grounded rt w settled' p) \<noteq> Empty \<longrightarrow>
      heading_of (resultsContainer (submit_resume_grounded rt w settled' p)) = Some w
      \<and> (markup_free w \<longrightarrow>
           heading_shown (resultsContainer (submit_resume_grounded rt w settled' p)) = Some w))"
proof -
  have a: "resultsContainer (submit rt settled s) \<noteq> Empty \<longrightarrow>
      heading_of (resultsContainer (submit rt settled s)) = Some (trim (searchInput s))
      \<and> (markup_free (trim (searchInput s)) \<longrightarrow>
           heading_shown (resultsContainer (submit rt settled s))
             = Some (trim (searchInput s)))"
    using submit_heading[of rt settled s] by (auto simp: heading_shown_def heading_text_def)
  have b: "resultsContainer (submit_grounded rt settled' s) \<noteq> Empty \<longrightarrow>
      heading_of (resultsContainer (submit_grounded rt settled' s))
        = Some (trim (searchInput s))
      \<and> (markup_free (trim (searchInput s)) \<longrightarrow>
           heading_shown (resultsContainer (submit_grounded rt settled' s))
             = Some (trim (searchInput s)))"
    using submit_grounded_heading[of rt settled' s]
    by (auto simp: heading_shown_def heading_text_def)
  have c: "submit_begin s = Awaiting w0 s0 \<longrightarrow> w0 = trim (searchInput s)"
    by (auto simp: submit_begin_def Let_def split: if_splits)
  have d: "submit_begin_grounded s = Awaiting w0 s0 \<longrightarrow> w0 = trim (searchInput s)"
    by (auto simp: submit_begin_grounded_def Let_def split: if_splits)
  have e: "resultsContainer (submit_resume rt w settled p) \<noteq> Empty \<longrightarrow>
      heading_of (resultsContainer (submit_resume rt w settled p)) = Some w
      \<and> (markup_free w \<longrightarrow>
           heading_shown (resultsContainer (submit_resume rt w settled p)) = Some w)"
    using resume_heading[of rt w settled p] by (auto simp: heading_shown_def heading_text_def)
  have f: "resultsContainer (submit_resume_grounded rt w settled' p) \<noteq> Empty \<longrightarrow>
      heading_of (resultsContainer (submit_resume_grounded rt w settled' p)) = Some w
      \<and> (markup_free w \<longrightarrow>
           heading_shown (resultsContainer (submit_resume_grounded rt w settled' p)) = Some w)"
    using resume_grounded_heading[of rt w settled' p]
    by (auto simp: heading_shown_def heading_text_def)
  from a b c d e f show ?thesis by blast
qed

theorem heading_is_query_witness:
  "resultsContainer (submit sample_runtime (Resolved (JSONReply sample_entry))
      (quiet_page\<lparr>searchInput := js ''  Run ''\<rparr>)) \<noteq> Empty
   \<and> markup_free (trim (searchInput (quiet_page\<lparr>searchInput := js ''  Run ''\<rparr>)))
   \<and> heading_of (resultsContainer (submit sample_runtime (Resolved (JSONReply sample_entry))
        (quiet_page\<lparr>searchInput := js ''  Run ''\<rparr>))) = Some (js ''Run'')
   \<and> heading_shown (resultsContainer (submit sample_runtime (Resolved (JSONReply sample_entry))
        (quiet_page\<lparr>searchInput := js ''  Run ''\<rparr>))) = Some (js ''Run'')
   \<and> submit_begin_grounded (quiet_page\<lparr>searchInput := js ''  Run ''\<rparr>)
       = Awaiting (js ''Run'')
           (quiet_page\<lparr>searchInput := js ''  Run '', loader_hidden := False,
              calls := [js ''Run'']\<rparr>)
   \<and> resultsContainer (submit_resume_grounded sample_runtime (js ''Run'')
        (Resolved sample_grounded)
        (quiet_page\<lparr>searchInput := js ''walk'', errorContainer_hidden := False\<rparr>)) \<noteq> Empty
   \<and> heading_shown (resultsContainer (submit_resume_grounded sample_runtime (js ''Run'')
        (Resolved sample_grounded)
        (quiet_page\<lparr>searchInput := js ''walk'', errorContainer_hidden := False\<rparr>)))
       = Some (js ''Run'')"
proof -
  let ?p = "quiet_page\<lparr>searchInput := js ''  Run ''\<rparr>"
  let ?b = "quiet_page\<lparr>searchInput := js ''  Run '', loader_hidden := False,
              calls := [js ''Run'']\<rparr>"
  let ?k = "quiet_page\<lparr>searchInput := js ''walk'', errorContainer_hidden := False\<rparr>"
  let ?r = "resultsContainer (submit sample_runtime (Resolved (JSONReply sample_entry)) ?p)"
  let ?g = "resultsContainer (submit_resume_grounded sample_runtime (js ''Run'')
        (Resolved sample_grounded) ?k)"
  have ne: "?r \<noteq> Empty" by code_simp
  have q: "trim (searchInput ?p) = js ''Run''" by code_simp
  have m: "markup_free (trim (searchInput ?p))" by code_simp
  have bg: "submit_begin_grounded ?p = Awaiting (js ''Run'') ?b" by code_simp
  have ng: "?g \<noteq> Empty" by code_simp
  have mg: "markup_free (js ''Run'')" by code_simp
  note t = heading_is_query[where rt = sample_runtime
      and settled = "Resolved (JSONReply sample_entry)" and s = ?p
      and settled' = "Resolved sample_grounded" and ?w0.0 = "js ''Run''" and ?s0.0 = ?b
      and w = "js ''Run''" and p = ?k]
  from t ne have 1: "heading_of ?r = Some (trim (searchInput ?p))" by blast
  from t ne m have 2: "heading_shown ?r = Some (trim (searchInput ?p))" by blast
  from t ng mg have 3: "heading_shown ?g = Some (js ''Run'')" by blast
  from 1 2 q have 4: "heading_of ?r = Some (js ''Run'')" "heading_shown ?r = Some (js ''Run'')"
    by simp_all
  from ne m 4 bg ng 3 show ?thesis by blast
qed

subsection \<open>Overlapping lookups\<close>

lemma overlap_runs:
  assumes "trim qA \<noteq> []" "trim qB \<noteq> []" "ai s"
  shows "\<exists>s2. localStorage s2 = localStorage s \<and> errorContainer_hidden s2
      \<and> run_events submit_begin (submit_resume rt) (overlap_B_first qA oA qB oB) (s, [])
          = (submit_resume rt (trim qA) oA (submit_resume rt (trim qB) oB s2), [])
      \<and> run_events submit_begin (submit_resume rt) (overlap_A_first qA oA qB oB) (s, [])
          = (submit_resume rt (trim qB) oB (submit_resume rt (trim qA) oA s2), [])"
proof -
  from assms obtain s1 where s1: "submit_begin (s\<lparr>searchInput := qA\<rparr>) = Awaiting (trim qA) s1"
    "ai s1" "localStorage s1 = localStorage s"
    by (cases "s\<lparr>searchInput := qA\<rparr>" rule: submit_begin_cases) auto
  from assms s1 obtain s2 where s2: "submit_begin (s1\<lparr>searchInput := qB\<rparr>) = Awaiting (trim qB) s2"
    "localStorage s2 = localStorage s" "errorContainer_hidden s2"
    by (cases "s1\<lparr>searchInput := qB\<rparr>" rule: submit_begin_cases) auto
  from s1 s2 show ?thesis
    by (intro exI[of _ s2]) (simp add: overlap_B_first_def overlap_A_first_def)
qed

lemma overlap_runs_grounded:
  assumes "trim qA \<noteq> []" "trim qB \<noteq> []" "ai s"
  shows "\<exists>s2. localStorage s2 = localStorage s \<and> errorContainer_hidden s2
      \<and> run_events submit_begin_grounded (submit_resume_grounded rt)
            (overlap_B_first qA oA qB oB) (s, [])
          = (submit_resume_grounded rt (trim qA) oA
               (submit_resume_grounded rt (trim qB) oB s2), [])
      \<and> run_events submit_begin_grounded (submit_resume_grounded rt)
            (overlap_A_first qA oA qB oB) (s, [])
          = (submit_resume_grounded rt (trim qB) oB
               (submit_resume_grounded rt (trim qA) oA s2), [])"
proof -
  from assms obtain s1 where s1:
    "submit_begin_grounded (s\<lparr>searchInput := qA\<rparr>) = Awaiting (trim qA) s1"
    "ai s1" "localStorage s1 = localStorage s"
    by (cases "s\<lparr>searchInput := qA\<rparr>" rule: submit_begin_grounded_cases) auto
  from assms s1 obtain s2 where s2:
    "submit_begin_grounded (s1\<lparr>searchInput := qB\<rparr>) = Awaiting (trim qB) s2"
    "localStorage s2 = localStorage s" "errorContainer_hidden s2"
    by (cases "s1\<lparr>searchInput := qB\<rparr>" rule: submit_begin_grounded_cases) auto
  from s1 s2 show ?thesis
    by (intro exI[of _ s2]) (simp add: overlap_B_first_def overlap_A_first_def)
qed

text \<open>The page after one lookup's reply is handled on the page another one left.\<close>

lemma two_resumes:
  assumes "errorContainer_hidden s2"
  shows "resultsContainer (submit_resume rt w2 o2 (submit_resume rt w1 o1 s2))
       = (case lookup_entry rt w2 o2 (store_after_call rt w1 o1 (localStorage s2)) of
            None \<Rightarrow> Empty | Some v \<Rightarrow> Structured v)"
    and "errorContainer_hidden (submit_resume rt w2 o2 (submit_resume rt w1 o1 s2))
       = (lookup_entry rt w2 o2 (store_after_call rt w1 o1 (localStorage s2)) \<noteq> None
          \<and> lookup_entry rt w1 o1 (localStorage s2) \<noteq> None)"
    and "lookup_entry rt w2 o2 (store_after_call rt w1 o1 (localStorage s2)) = None
          \<or> lookup_entry rt w1 o1 (localStorage s2) = None \<Longrightarrow>
         errorContainer_text (submit_resume rt w2 o2 (submit_resume rt w1 o1 s2))
           = fetch_error_message"
  using assms by (auto simp: submit_resume_page)

lemma two_resumes_grounded:
  assumes "errorContainer_hidden s2"
  shows "resultsContainer (submit_resume_grounded rt w2 o2 (submit_resume_grounded rt w1 o1 s2))
       = (case lookup_entry_grounded rt w2 o2 (store_after_call rt w1 o1 (localStorage s2)) of
            None \<Rightarrow> Empty | Some v \<Rightarrow> Grounded v)"
    and "errorContainer_hidden
           (submit_resume_grounded rt w2 o2 (submit_resume_grounded rt w1 o1 s2))
       = (lookup_entry_grounded rt w2 o2 (store_after_call rt w1 o1 (localStorage s2)) \<noteq> None
          \<and> lookup_entry_grounded rt w1 o1 (localStorage s2) \<noteq> None)"
    and "lookup_entry_grounded rt w2 o2 (store_after_call rt w1 o1 (localStorage s2)) = None
          \<or> lookup_entry_grounded rt w1 o1 (localStorage s2) = None \<Longrightarrow>
         errorContainer_text
           (submit_resume_grounded rt w2 o2 (submit_resume_grounded rt w1 o1 s2))
           = fetch_error_message_grounded"
  using assms by (auto simp: submit_resume_grounded_page)

text \<open>
  Claim C4 as stated fails: the handler keeps no token of the lookup it belongs to.
  With \<^verbatim>\<open>alpha\<close> submitted, then \<^verbatim>\<open>beta\<close>, the reply for \<^verbatim>\<open>beta\<close> is rendered
  when it arrives, and the late reply for \<^verbatim>\<open>alpha\<close> is rendered over it, in both
  files. And when the call for \<^verbatim>\<open>alpha\<close> is rejected before the reply for
  \<^verbatim>\<open>beta\<close> arrives, the page ends with the entry for \<^verbatim>\<open>beta\<close> under the error of
  \<^verbatim>\<open>alpha\<close>.
\<close>

theorem stale_reply_overwrites_fresh:
  "heading_of (resultsContainer (fst (run_events submit_begin (submit_resume sample_runtime)
      [TypeIn (js ''alpha''), Submit, TypeIn (js ''beta''), Submit,
       Settle 1 (Resolved (JSONReply sample_entry))]
      (quiet_page, [])))) = Some (js ''beta'')
   \<and> heading_of (resultsContainer (fst (run_events submit_begin (submit_resume sample_runtime)
      (overlap_B_first (js ''alpha'') (Resolved (JSONReply sample_entry_no_definition))
         (js ''beta'') (Resolved (JSONReply sample_entry)))
      (quiet_page, [])))) = Some (js ''alpha'')
   \<and> heading_of (resultsContainer (fst (run_events submit_begin_grounded
      (submit_resume_grounded sample_runtime)
      (overlap_B_first (js ''alpha'') (Resolved sample_grounded)
         (js ''beta'') (Resolved sample_grounded))
      (quiet_page, [])))) = Some (js ''alpha'')
   \<and> heading_of (resultsContainer (fst (run_events submit_begin (submit_resume sample_runtime)
      (overlap_A_first (js ''alpha'') Rejected (js ''beta'') (Resolved (JSONReply sample_entry)))
      (quiet_page, [])))) = Some (js ''beta'')
   \<and> \<not> errorContainer_hidden (fst (run_events submit_begin (submit_resume sample_runtime)
      (overlap_A_first (js ''alpha'') Rejected (js ''beta'') (Resolved (JSONReply sample_entry)))
      (quiet_page, [])))"
  by code_simp

text \<open>
  Claim C4, amended. Query A is submitted and query B is submitted before the call for A
  settles, both not blank, the client initialised. The results container ends with
  what the lookup whose call settles last produces on the history the other one left:
  its entry, under its own query as heading, or nothing when its call is rejected, the
  history cannot be recorded or reading its reply throws. That is the lookup for A when
  A settles after B, and the lookup for B when B settles after A. The error container is
  hidden at the end only when both lookups produced an entry: the error of the lookup
  that settled first stays shown over the entry of the one that settled last.
\<close>

theorem last_settled_reply_is_shown:
  assumes "trim qA \<noteq> []" and "trim qB \<noteq> []" and "ai s"
  shows
   "(let final = fst (run_events submit_begin (submit_resume rt)
                        (overlap_B_first qA oA qB oB) (s, []));
         entryB = lookup_entry rt (trim qB) oB (localStorage s);
         entryA = lookup_entry rt (trim qA) oA
                    (store_after_call rt (trim qB) oB (localStorage s))
     in resultsContainer final = (case entryA of None \<Rightarrow> Empty | Some v \<Rightarrow> Structured v)
        \<and> errorContainer_hidden final = (entryA \<noteq> None \<and> entryB \<noteq> None)
        \<and> (entryA = None \<or> entryB = None \<longrightarrow>
             errorContainer_text final = fetch_error_message))
    \<and> (let final = fst (run_events submit_begin (submit_resume rt)
                        (overlap_A_first qA oA qB oB) (s, []));
         entryA = lookup_entry rt (trim qA) oA (localStorage s);
         entryB = lookup_entry rt (trim qB) oB
                    (store_after_call rt (trim qA) oA (localStorage s))
     in resultsContainer final = (case entryB of None \<Rightarrow> Empty | Some v \<Rightarrow> Structured v)
        \<and> errorContainer_hidden final = (entryB \<noteq> None \<and> entryA \<noteq> None)
        \<and> (entryB = None \<or> entryA = None \<longrightarrow>
             errorContainer_text final = fetch_error_message))
    \<and> (let final = fst (run_events submit_begin_grounded (submit_resume_grounded rt)
                        (overlap_B_first qA gA qB gB) (s, []));
         entryB = lookup_entry_grounded rt (trim qB) gB (localStorage s);
         entryA = lookup_entry_grounded rt (trim qA) gA
                    (store_after_call rt (trim qB) gB (localStorage s))
     in resultsContainer final = (case entryA of None \<Rightarrow> Empty | Some v \<Rightarrow> Grounded v)
        \<and> errorContainer_hidden final = (entryA \<noteq> None \<and> entryB \<noteq> None)
        \<and> (entryA = None \<or> entryB = None \<longrightarrow>
             errorContainer_text final = fetch_error_message_grounded))
    \<and> (let final = fst (run_events submit_begin_grounded (submit_resume_grounded rt)
                        (overlap_A_first qA gA qB gB) (s, []));
         entryA = lookup_entry_grounded rt (trim qA) gA (localStorage s);
         entryB = lookup_entry_grounded rt (trim qB) gB
                    (store_after_call rt (trim qA) gA (localStorage s))
     in resultsContainer final = (case entryB of None \<Rightarrow> Empty | Some v \<Rightarrow> Grounded v)
        \<and> errorContainer_hidden final = (entryB \<noteq> None \<and> entryA \<noteq> None)
        \<and> (entryB = None \<or> entryA = None \<longrightarrow>
             errorContainer_text final = fetch_error_message_grounded))
    \<and> lookup_entry rt w Rejected it = None
    \<and> lookup_entry_grounded rt w Rejected it = None
    \<and> (lookup_entry rt w settled it = Some v \<longrightarrow> sv_heading v = w)
    \<and> (lookup_entry_grounded rt w settled' it = Some v' \<longrightarrow> gv_heading v' = w)"
proof -
  from overlap_runs[OF assms, where rt = rt and oA = oA and oB = oB]
  obtain a where a: "localStorage a = localStorage s" "errorContainer_hidden a"
    "run_events submit_begin (submit_resume rt) (overlap_B_first qA oA qB oB) (s, [])
          = (submit_resume rt (trim qA) oA (submit_resume rt (trim qB) oB a), [])"
    "run_events submit_begin (submit_resume rt) (overlap_A_first qA oA qB oB) (s, [])
          = (submit_resume rt (trim qB) oB (submit_resume rt (trim qA) oA a), [])"
    by blast
  from overlap_runs_grounded[OF assms, where rt = rt and oA = gA and oB = gB]
  obtain b where b: "localStorage b = localStorage s" "errorContainer_hidden b"
    "run_events submit_begin_grounded (submit_resume_grounded rt)
            (overlap_B_first qA gA qB gB) (s, [])
          = (submit_resume_grounded rt (trim qA) gA
               (submit_resume_grounded rt (trim qB) gB b), [])"
    "run_events submit_begin_grounded (submit_resume_grounded rt)
            (overlap_A_first qA gA qB gB) (s, [])
          = (submit_resume_grounded rt (trim qB) gB
               (submit_resume_grounded rt (trim qA) gA b), [])"
    by blast
  note ra = two_resumes[OF a(2), unfolded a(1)]
  note rb = two_resumes_grounded[OF b(2), unfolded b(1)]
  have 1: "let final = fst (run_events submit_begin (submit_resume rt)
                        (overlap_B_first qA oA qB oB) (s, []));
         entryB = lookup_entry rt (trim qB) oB (localStorage s);
         entryA = lookup_entry rt (trim qA) oA
                    (store_after_call rt (trim qB) oB (localStorage s))
     in resultsContainer final = (case entryA of None \<Rightarrow> Empty | Some v \<Rightarrow> Structured v)
        \<and> errorContainer_hidden final = (entryA \<noteq> None \<and> entryB \<noteq> None)
        \<and> (entryA = None \<or> entryB = None \<longrightarrow>
             errorContainer_text final = fetch_error_message)"
    unfolding Let_def a(3) fst_conv
    using ra[of rt "trim qA" oA "trim qB" oB] by blast
  have 2: "let final = fst (run_events submit_begin (submit_resume rt)
                        (overlap_A_first qA oA qB oB) (s, []));
         entryA = lookup_entry rt (trim qA) oA (localStorage s);
         entryB = lookup_entry rt (trim qB) oB
                    (store_after_call rt (trim qA) oA (localStorage s))
     in resultsContainer final = (case entryB of None \<Rightarrow> Empty | Some v \<Rightarrow> Structured v)
        \<and> errorContainer_hidden final = (entryB \<noteq> None \<and> entryA \<noteq> None)
        \<and> (entryB = None \<or> entryA = None \<longrightarrow>
             errorContainer_text final = fetch_error_message)"
    unfolding Let_def a(4) fst_conv
    using ra[of rt "trim qB" oB "trim qA" oA] by blast
  have 3: "let final = fst (run_events submit_begin_grounded (submit_resume_grounded rt)
                        (overlap_B_first qA gA qB gB) (s, []));
         entryB = lookup_entry_grounded rt (trim qB) gB (localStorage s);
         entryA = lookup_entry_grounded rt (trim qA) gA
                    (store_after_call rt (trim qB) gB (localStorage s))
     in resultsContainer final = (case entryA of None \<Rightarrow> Empty | Some v \<Rightarrow> Grounded v)
        \<and> errorContainer_hidden final = (entryA \<noteq> None \<and> entryB \<noteq> None)
        \<and> (entryA = None \<or> entryB = None \<longrightarrow>
             errorContainer_text final = fetch_error_message_grounded)"
    unfolding Let_def b(3) fst_conv
    using rb[of rt "trim qA" gA "trim qB" gB] by blast
  have 4: "let final = fst (run_events submit_begin_grounded (submit_resume_grounded rt)
                        (overlap_A_first qA gA qB gB) (s, []));
         entryA = lookup_entry_grounded rt (trim qA) gA (localStorage s);
         entryB = lookup_entry_grounded rt (trim qB) gB
                    (store_after_call rt (trim qA) gA (localStorage s))
     in resultsContainer final = (case entryB of None \<Rightarrow> Empty | Some v \<Rightarrow> Grounded v)
        \<and> errorContainer_hidden final = (entryB \<noteq> None \<and> entryA \<noteq> None)
        \<and> (entryB = None \<or> entryA = None \<longrightarrow>
             errorContainer_text final = fetch_error_message_grounded)"
    unfolding Let_def b(4) fst_conv
    using rb[of rt "trim qB" gB "trim qA" gA] by blast
  have 5: "lookup_entry rt w Rejected it = None"
    "lookup_entry_grounded rt w Rejected it = None"
    by (simp_all add: lookup_entry_def lookup_entry_grounded_def)
  from 1 2 3 4 5 lookup_entry_heading[of rt w settled it v]
    lookup_entry_grounded_heading[of rt w settled' it v']
  show ?thesis by blast
qed

theorem last_settled_reply_is_shown_witness:
  "trim (js ''alpha'') \<noteq> [] \<and> trim (js ''beta'') \<noteq> [] \<and> ai quiet_page
   \<and> lookup_entry sample_runtime (trim (js ''alpha'')) Rejected (localStorage quiet_page) = None
   \<and> resultsContainer (fst (run_events submit_begin (submit_resume sample_runtime)
        (overlap_A_first (js ''alpha'') Rejected (js ''beta'') (Resolved (JSONReply sample_entry)))
        (quiet_page, []))) \<noteq> Empty
   \<and> \<not> errorContainer_hidden (fst (run_events submit_begin (submit_resume sample_runtime)
        (overlap_A_first (js ''alpha'') Rejected (js ''beta'') (Resolved (JSONReply sample_entry)))
        (quiet_page, [])))
   \<and> errorContainer_text (fst (run_events submit_begin (submit_resume sample_runtime)
        (overlap_A_first (js ''alpha'') Rejected (js ''beta'') (Resolved (JSONReply sample_entry)))
        (quiet_page, []))) = fetch_error_message
   \<and> resultsContainer (fst (run_events submit_begin_grounded
        (submit_resume_grounded sample_runtime)
        (overlap_B_first (js ''alpha'') (Resolved sample_grounded) (js ''beta'') Rejected)
        (quiet_page, []))) \<noteq> Empty
   \<and> \<not> errorContainer_hidden (fst (run_events submit_begin_grounded
        (submit_resume_grounded sample_runtime)
        (overlap_B_first (js ''alpha'') (Resolved sample_grounded) (js ''beta'') Rejected)
        (quiet_page, [])))
   \<and> sv_heading (the (lookup_entry sample_runtime (js ''beta'')
        (Resolved (JSONReply sample_entry)) NoItem)) = js ''beta''
   \<and> gv_heading (the (lookup_entry_grounded sample_runtime (js ''alpha'')
        (Resolved sample_grounded) NoItem)) = js ''alpha''"
proof -
  let ?oB = "Resolved (JSONReply sample_entry) :: reply_text outcome"
  let ?gA = "Resolved sample_grounded :: grounded_response outcome"
  let ?f = "fst (run_events submit_begin (submit_resume sample_runtime)
        (overlap_A_first (js ''alpha'') Rejected (js ''beta'') ?oB) (quiet_page, []))"
  let ?g = "fst (run_events submit_begin_grounded (submit_resume_grounded sample_runtime)
        (overlap_B_first (js ''alpha'') ?gA (js ''beta'') Rejected) (quiet_page, []))"
  let ?eA = "lookup_entry sample_runtime (trim (js ''alpha'')) Rejected (localStorage quiet_page)"
  let ?eB = "lookup_entry sample_runtime (trim (js ''beta'')) ?oB
        (store_after_call sample_runtime (trim (js ''alpha'')) (Rejected :: reply_text outcome)
           (localStorage quiet_page))"
  let ?hB = "lookup_entry_grounded sample_runtime (trim (js ''beta'')) Rejected
        (localStorage quiet_page)"
  let ?hA = "lookup_entry_grounded sample_runtime (trim (js ''alpha'')) ?gA
        (store_after_call sample_runtime (trim (js ''beta''))
           (Rejected :: grounded_response outcome) (localStorage quiet_page))"
  let ?v = "the (lookup_entry sample_runtime (js ''beta'') ?oB NoItem)"
  let ?u = "the (lookup_entry_grounded sample_runtime (js ''alpha'') ?gA NoItem)"
  have h: "trim (js ''alpha'') \<noteq> []" "trim (js ''beta'') \<noteq> []" "ai quiet_page"
    by code_simp+
  have eA: "?eA = None" by code_simp
  have eB: "?eB \<noteq> None" by code_simp
  have hB: "?hB = None" by code_simp
  have hA: "?hA \<noteq> None" by code_simp
  have v: "lookup_entry sample_runtime (js ''beta'') ?oB NoItem \<noteq> None" by code_simp
  have u: "lookup_entry_grounded sample_runtime (js ''alpha'') ?gA NoItem \<noteq> None"
    by code_simp
  note t = last_settled_reply_is_shown[OF h, unfolded Let_def,
      where rt = sample_runtime and oA = Rejected and oB = ?oB and gA = ?gA and gB = Rejected
        and w = "js ''beta''" and settled = ?oB and it = NoItem and v = ?v
        and settled' = ?gA and v' = ?u]
  from t have c: "resultsContainer ?f = (case ?eB of None \<Rightarrow> Empty | Some v \<Rightarrow> Structured v)"
    "errorContainer_hidden ?f = (?eB \<noteq> None \<and> ?eA \<noteq> None)"
    "?eB = None \<or> ?eA = None \<longrightarrow> errorContainer_text ?f = fetch_error_message"
    by blast+
  from t have d: "resultsContainer ?g = (case ?hA of None \<Rightarrow> Empty | Some v \<Rightarrow> Grounded v)"
    "errorContainer_hidden ?g = (?hA \<noteq> None \<and> ?hB \<noteq> None)"
    by blast+
  from t have k: "lookup_entry sample_runtime (js ''beta'') ?oB NoItem = Some ?v
      \<longrightarrow> sv_heading ?v = js ''beta''"
    by blast
  from c eA eB have 1: "resultsContainer ?f \<noteq> Empty" "\<not> errorContainer_hidden ?f"
    "errorContainer_text ?f = fetch_error_message"
    by auto
  from d hA hB have 2: "resultsContainer ?g \<noteq> Empty" "\<not> errorContainer_hidden ?g"
    by auto
  from k v have 3: "sv_heading ?v = js ''beta''" by auto
  have 4: "gv_heading ?u = js ''alpha''" by code_simp
  from h eA 1 2 3 4 show ?thesis by blast
qed


subsection \<open>Reading the stored history\<close>

text \<open>
  Claim C3 as stated fails: nothing catches the exception of \<^verbatim>\<open>JSON.parse\<close>. On a
  stored text that is not JSON the read throws a \<^verbatim>\<open>SyntaxError\<close>, and so do
  \<^verbatim>\<open>renderHistory\<close> and \<^verbatim>\<open>updateHistory\<close>; on a stored JSON object the read
  returns the object, which is no sequence.
\<close>

theorem stored_text_that_is_not_json_throws:
  "load_history NotJSON = Inl SyntaxError
   \<and> renderHistory (quiet_page\<lparr>localStorage := NotJSON\<rparr>)
       = Threw SyntaxError (quiet_page\<lparr>localStorage := NotJSON\<rparr>)
   \<and> updateHistory sample_runtime (js ''cat'') (quiet_page\<lparr>localStorage := NotJSON\<rparr>)
       = Threw SyntaxError (quiet_page\<lparr>localStorage := NotJSON\<rparr>)
   \<and> load_history (JSONText (JObj [(js ''a'', JNum 1)])) = Inr (JObj [(js ''a'', JNum 1)])"
  by (simp add: load_history_def renderHistory_def updateHistory_def)

text \<open>
  Claim C3, amended. The read returns the empty sequence when nothing or the empty
  string is stored, and the parsed value, unchecked, when the stored text is JSON. It
  throws exactly when the stored text is not JSON, and then \<^verbatim>\<open>renderHistory\<close> and
  \<^verbatim>\<open>updateHistory\<close> throw the same error and change nothing. With nothing or the empty
  string stored, \<^verbatim>\<open>renderHistory\<close> hides the history section.
\<close>

theorem load_history_by_stored_text:
  "load_history NoItem = Inr (JArr [])
   \<and> load_history EmptyText = Inr (JArr [])
   \<and> load_history (JSONText v) = Inr v
   \<and> (load_history it = Inl e) = (it = NotJSON \<and> e = SyntaxError)
   \<and> (localStorage s = NotJSON \<longrightarrow>
        renderHistory s = Threw SyntaxError s \<and> updateHistory rt w s = Threw SyntaxError s)
   \<and> (localStorage s = NoItem \<or> localStorage s = EmptyText \<longrightarrow>
        renderHistory s = Done (s\<lparr>historySection_hidden := True\<rparr>))"
  by (cases it) (auto simp: load_history_def renderHistory_def updateHistory_def)

theorem load_history_by_stored_text_witness:
  "localStorage (quiet_page\<lparr>localStorage := NotJSON\<rparr>) = NotJSON
   \<and> renderHistory (quiet_page\<lparr>localStorage := NotJSON\<rparr>)
       = Threw SyntaxError (quiet_page\<lparr>localStorage := NotJSON\<rparr>)
   \<and> updateHistory sample_runtime (js ''cat'') (quiet_page\<lparr>localStorage := NotJSON\<rparr>)
       = Threw SyntaxError (quiet_page\<lparr>localStorage := NotJSON\<rparr>)
   \<and> localStorage (quiet_page\<lparr>localStorage := EmptyText\<rparr>) = EmptyText
   \<and> renderHistory (quiet_page\<lparr>localStorage := EmptyText\<rparr>)
       = Done (quiet_page\<lparr>localStorage := EmptyText, historySection_hidden := True\<rparr>)"
proof -
  let ?a = "quiet_page\<lparr>localStorage := NotJSON\<rparr>"
  let ?b = "quiet_page\<lparr>localStorage := EmptyText\<rparr>"
  have 1: "localStorage ?a = NotJSON" and 2: "localStorage ?b = EmptyText" by simp_all
  from load_history_by_stored_text[where s = ?a and it = NoItem and w = "js ''cat''"
      and rt = sample_runtime and v = JNull and e = SyntaxError] 1
  have 3: "renderHistory ?a = Threw SyntaxError ?a"
    and 5: "updateHistory sample_runtime (js ''cat'') ?a = Threw SyntaxError ?a" by blast+
  from load_history_by_stored_text[where s = ?b and it = NoItem and w = "js ''cat''"
      and rt = sample_runtime and v = JNull and e = SyntaxError] 2
  have 4: "renderHistory ?b = Done (?b\<lparr>historySection_hidden := True\<rparr>)" by blast
  from 1 2 3 4 5 show ?thesis by simp
qed

subsection \<open>Replies that do not follow the schema\<close>

lemma strings_do_not_throw: "is_string x \<Longrightarrow> \<not> to_string_throws x"
  by (cases x) simp_all

lemma string_lists_do_not_throw: "list_all is_string xs \<Longrightarrow> \<not> list_ex to_string_throws xs"
  by (induction xs) (auto simp: strings_do_not_throw)

lemma string_lists_drop: "list_all is_string xs \<Longrightarrow> list_all is_string (drop n xs)"
  by (auto simp: list_all_iff dest: in_set_dropD)

lemma hole_schema:
  "text_field (map_of kvs n) \<Longrightarrow> hole (JObj kvs) n = Inr (map_of kvs n)"
  by (auto simp: text_field_def hole_def get_field_def interpolate_def and_then_def
      strings_do_not_throw split: option.splits)

lemma list_part_schema:
  "list_field (map_of kvs n) \<Longrightarrow> \<exists>p. list_part rt (JObj kvs) n = Inr p"
  by (auto simp: list_field_def list_part_def get_field_def has_more_than_def truthy_def
      property_length_def js_greater_def js_map_def and_then_def string_lists_do_not_throw
      split: option.splits json.splits)

lemma example_part_schema:
  "list_field (map_of kvs (js ''exampleSentences'')) \<Longrightarrow>
   \<exists>p. example_part rt (JObj kvs) = Inr p"
  by (auto simp: list_field_def example_part_def get_field_def has_more_than_def truthy_def
      property_length_def js_greater_def js_index0_def interpolate_def and_then_def
      strings_do_not_throw
      split: option.splits json.splits list.splits)

lemma more_examples_part_schema:
  "list_field (map_of kvs (js ''exampleSentences'')) \<Longrightarrow>
   \<exists>p. more_examples_part rt (JObj kvs) = Inr p"
  using string_lists_drop[of _ 1]
  by (auto simp: list_field_def more_examples_part_def get_field_def has_more_than_def
      truthy_def property_length_def js_greater_def js_slice1_def js_map_def and_then_def
      string_lists_do_not_throw
      split: option.splits json.splits)

lemma render_structured_schema:
  assumes "follows_schema data"
  shows "\<exists>v. render_structured rt w data = Inr v
      \<and> Inr (sv_definition v) = get_field data (js ''definition'')"
proof -
  from assms obtain kvs where d: "data = JObj kvs" by (cases data) simp_all
  with assms have f: "text_field (map_of kvs (js ''compliment''))"
      "text_field (map_of kvs (js ''pronunciation''))"
      "text_field (map_of kvs (js ''partOfSpeech''))"
      "text_field (map_of kvs (js ''definition''))"
      "list_field (map_of kvs (js ''synonyms''))"
      "list_field (map_of kvs (js ''antonyms''))"
      "text_field (map_of kvs (js ''etymology''))"
      "list_field (map_of kvs (js ''exampleSentences''))"
    by simp_all
  from example_part_schema[OF f(8)] obtain ex where ex: "example_part rt (JObj kvs) = Inr ex"
    by blast
  from list_part_schema[OF f(5)] obtain sy
    where sy: "list_part rt (JObj kvs) (js ''synonyms'') = Inr sy" by blast
  from list_part_schema[OF f(6)] obtain an
    where an: "list_part rt (JObj kvs) (js ''antonyms'') = Inr an" by blast
  from more_examples_part_schema[OF f(8)] obtain mo
    where mo: "more_examples_part rt (JObj kvs) = Inr mo" by blast
  show ?thesis
    unfolding d render_structured_def
    by (simp add: hole_schema f ex sy an mo and_then_def get_field_def)
qed

text \<open>
  Claim C2 as stated fails: the handler reads the fields of the parsed reply without
  checking them. A reply with every field but \<^verbatim>\<open>definition\<close> is rendered, no error is
  shown, and the definition paragraph holds the text \<^verbatim>\<open>undefined\<close>. A reply with a
  number for its definition and a number for its synonyms is rendered as well, with no
  error shown.
\<close>

theorem missing_definition_is_rendered:
  "get_field sample_entry_no_definition (js ''definition'') = Inr None
   \<and> errorContainer_hidden
       (submit sample_runtime (Resolved (JSONReply sample_entry_no_definition))
          (quiet_page\<lparr>searchInput := js ''cat''\<rparr>))
   \<and> resultsContainer
       (submit sample_runtime (Resolved (JSONReply sample_entry_no_definition))
          (quiet_page\<lparr>searchInput := js ''cat''\<rparr>))
     = Structured
         \<lparr>sv_heading = js ''cat'',
          sv_compliment = Some (JStr (js ''Your resilience is remarkable.'')),
          sv_definition = None,
          sv_example = Part (Some (JStr (js ''She showed resilience.''))),
          sv_pronunciation = Some (JStr (js ''/ri-zil-yens/'')),
          sv_partOfSpeech = Some (JStr (js ''noun'')),
          sv_synonyms = Part [JStr (js ''toughness'')],
          sv_antonyms = Omitted,
          sv_etymology = Some (JStr (js ''From Latin resilire.'')),
          sv_moreExamples = Part [JStr (js ''Resilience takes time.'')]\<rparr>
   \<and> shown_text None = Some (js ''undefined'')
   \<and> get_field sample_entry_wrong_types (js ''definition'') = Inr (Some (JNum 42))
   \<and> get_field sample_entry_wrong_types (js ''synonyms'') = Inr (Some (JNum 7))
   \<and> errorContainer_hidden
       (submit sample_runtime (Resolved (JSONReply sample_entry_wrong_types))
          (quiet_page\<lparr>searchInput := js ''cat''\<rparr>))
   \<and> resultsContainer
       (submit sample_runtime (Resolved (JSONReply sample_entry_wrong_types))
          (quiet_page\<lparr>searchInput := js ''cat''\<rparr>))
     = Structured
         \<lparr>sv_heading = js ''cat'',
          sv_compliment = Some (JStr (js ''Your resilience is remarkable.'')),
          sv_definition = Some (JNum 42),
          sv_example = Part (Some (JStr (js ''She showed resilience.''))),
          sv_pronunciation = Some (JStr (js ''/ri-zil-yens/'')),
          sv_partOfSpeech = Some (JStr (js ''noun'')),
          sv_synonyms = Omitted,
          sv_antonyms = Omitted,
          sv_etymology = Some (JStr (js ''From Latin resilire.'')),
          sv_moreExamples = Part [JStr (js ''Resilience takes time.'')]\<rparr>"
  by code_simp

text \<open>
  Claim C2, amended. In structured mode the parsed reply is never validated. When the
  service call has resolved, the handler ends with the entry rendered exactly when the
  history can be recorded, the reply text parses and no expression of the template
  throws; the error container is then left as it was. In every other case it ends with
  nothing rendered and the fixed fallback message shown. A reply without text and a
  text that is not JSON do not parse, and on the JSON \<^verbatim>\<open>null\<close> the template throws. On
  a reply object whose fields, where present, have the types of the response schema the
  template does not throw, whether or not \<^verbatim>\<open>definition\<close> is among them: a missing
  definition is written as the text \<^verbatim>\<open>undefined\<close>.
\<close>

theorem structured_reply_is_not_validated:
  "resultsContainer (submit_resume rt w (Resolved r) s)
     = (if history_recordable rt w (localStorage s)
        then case parse_reply r of
               Inl e \<Rightarrow> Empty
             | Inr data \<Rightarrow>
                 (case render_structured rt w data of
                    Inl e \<Rightarrow> Empty
                  | Inr v \<Rightarrow> Structured v)
        else Empty)
   \<and> errorContainer_hidden (submit_resume rt w (Resolved r) s)
     = (resultsContainer (submit_resume rt w (Resolved r) s) \<noteq> Empty \<and> errorContainer_hidden s)
   \<and> (resultsContainer (submit_resume rt w (Resolved r) s) = Empty \<longrightarrow>
        errorContainer_text (submit_resume rt w (Resolved r) s) = fetch_error_message)
   \<and> parse_reply NoText = Inl SyntaxError
   \<and> parse_reply Unparseable = Inl SyntaxError
   \<and> parse_reply (JSONReply data) = Inr data
   \<and> render_structured rt w JNull = Inl TypeError
   \<and> (follows_schema data \<longrightarrow>
        (\<exists>v. render_structured rt w data = Inr v
           \<and> Inr (sv_definition v) = get_field data (js ''definition'')))
   \<and> shown_text None = Some (js ''undefined'')"
proof -
  let ?e = "lookup_entry rt w (Resolved r) (localStorage s)"
  have e: "(case ?e of None \<Rightarrow> Empty | Some v \<Rightarrow> Structured v)
     = (if history_recordable rt w (localStorage s)
        then case parse_reply r of
               Inl e \<Rightarrow> Empty
             | Inr data \<Rightarrow>
                 (case render_structured rt w data of
                    Inl e \<Rightarrow> Empty
                  | Inr v \<Rightarrow> Structured v)
        else Empty)"
    by (simp add: lookup_entry_def and_then_def split: sum.splits)
  have ne: "((case ?e of None \<Rightarrow> Empty | Some v \<Rightarrow> Structured v) \<noteq> Empty) = (?e \<noteq> None)"
    by (cases ?e) simp_all
  note p = submit_resume_page(1,3,5)[of rt w "Resolved r" s]
  from p(1) e have 1: "resultsContainer (submit_resume rt w (Resolved r) s)
     = (if history_recordable rt w (localStorage s)
        then case parse_reply r of
               Inl e \<Rightarrow> Empty
             | Inr data \<Rightarrow>
                 (case render_structured rt w data of
                    Inl e \<Rightarrow> Empty
                  | Inr v \<Rightarrow> Structured v)
        else Empty)"
    by simp
  from p(1,2) ne have 2: "errorContainer_hidden (submit_resume rt w (Resolved r) s)
     = (resultsContainer (submit_resume rt w (Resolved r) s) \<noteq> Empty \<and> errorContainer_hidden s)"
    by simp
  from p(1,3) ne have 3: "resultsContainer (submit_resume rt w (Resolved r) s) = Empty \<longrightarrow>
        errorContainer_text (submit_resume rt w (Resolved r) s) = fetch_error_message"
    by auto
  have 4: "parse_reply NoText = Inl SyntaxError" "parse_reply Unparseable = Inl SyntaxError"
    "parse_reply (JSONReply data) = Inr data"
    by (simp_all add: parse_reply_def)
  have 5: "render_structured rt w JNull = Inl TypeError"
    by (simp add: render_structured_def hole_def get_field_def and_then_def)
  have 6: "shown_text None = Some (js ''undefined'')" by (simp add: shown_text_def)
  from 1 2 3 4 5 6 render_structured_schema[of data rt w] show ?thesis by blast
qed

theorem structured_reply_is_not_validated_witness:
  "history_recordable sample_runtime (js ''cat'') (localStorage quiet_page)
   \<and> follows_schema sample_entry_no_definition
   \<and> get_field sample_entry_no_definition (js ''definition'') = Inr None
   \<and> resultsContainer (submit_resume sample_runtime (js ''cat'')
        (Resolved (JSONReply sample_entry_no_definition)) quiet_page) \<noteq> Empty
   \<and> errorContainer_hidden (submit_resume sample_runtime (js ''cat'')
        (Resolved (JSONReply sample_entry_no_definition)) quiet_page)
   \<and> render_structured sample_runtime (js ''cat'')
        (JObj [(js ''synonyms'', JStr (js ''abc''))]) = Inl TypeError
   \<and> resultsContainer (submit_resume sample_runtime (js ''cat'')
        (Resolved (JSONReply (JObj [(js ''synonyms'', JStr (js ''abc''))]))) quiet_page) = Empty
   \<and> \<not> errorContainer_hidden (submit_resume sample_runtime (js ''cat'')
        (Resolved (JSONReply (JObj [(js ''synonyms'', JStr (js ''abc''))]))) quiet_page)
   \<and> errorContainer_text (submit_resume sample_runtime (js ''cat'')
        (Resolved (JSONReply (JObj [(js ''synonyms'', JStr (js ''abc''))]))) quiet_page)
       = fetch_error_message
   \<and> resultsContainer (submit_resume sample_runtime (js ''cat'')
        (Resolved Unparseable) quiet_page) = Empty"
proof -
  let ?d = "sample_entry_no_definition"
  let ?x = "JObj [(js ''synonyms'', JStr (js ''abc''))]"
  let ?a = "submit_resume sample_runtime (js ''cat'') (Resolved (JSONReply ?d)) quiet_page"
  let ?b = "submit_resume sample_runtime (js ''cat'') (Resolved (JSONReply ?x)) quiet_page"
  let ?c = "submit_resume sample_runtime (js ''cat'') (Resolved Unparseable) quiet_page"
  have h: "history_recordable sample_runtime (js ''cat'') (localStorage quiet_page)"
    by code_simp
  have f: "follows_schema ?d" by code_simp
  have g: "get_field ?d (js ''definition'') = Inr None" by code_simp
  have x: "render_structured sample_runtime (js ''cat'') ?x = Inl TypeError" by code_simp
  have q: "errorContainer_hidden quiet_page" by code_simp
  note ta = structured_reply_is_not_validated[where rt = sample_runtime and w = "js ''cat''"
      and r = "JSONReply ?d" and s = quiet_page and data = ?d]
  note tb = structured_reply_is_not_validated[where rt = sample_runtime and w = "js ''cat''"
      and r = "JSONReply ?x" and s = quiet_page and data = ?x]
  note tc = structured_reply_is_not_validated[where rt = sample_runtime and w = "js ''cat''"
      and r = Unparseable and s = quiet_page and data = ?d]
  from ta f obtain v where v: "render_structured sample_runtime (js ''cat'') ?d = Inr v"
    by blast
  from ta have "resultsContainer ?a
     = (if history_recordable sample_runtime (js ''cat'') (localStorage quiet_page)
        then case parse_reply (JSONReply ?d) of
               Inl e \<Rightarrow> Empty
             | Inr data \<Rightarrow>
                 (case render_structured sample_runtime (js ''cat'') data of
                    Inl e \<Rightarrow> Empty
                  | Inr v \<Rightarrow> Structured v)
        else Empty)"
    by blast
  with h v have 1: "resultsContainer ?a \<noteq> Empty" by (simp add: parse_reply_def)
  from ta have "errorContainer_hidden ?a
      = (resultsContainer ?a \<noteq> Empty \<and> errorContainer_hidden quiet_page)"
    by blast
  with 1 q have 2: "errorContainer_hidden ?a" by simp
  from tb have "resultsContainer ?b
     = (if history_recordable sample_runtime (js ''cat'') (localStorage quiet_page)
        then case parse_reply (JSONReply ?x) of
               Inl e \<Rightarrow> Empty
             | Inr data \<Rightarrow>
                 (case render_structured sample_runtime (js ''cat'') data of
                    Inl e \<Rightarrow> Empty
                  | Inr v \<Rightarrow> Structured v)
        else Empty)"
    by blast
  with h x have 3: "resultsContainer ?b = Empty" by (simp add: parse_reply_def)
  from tb have "errorContainer_hidden ?b
      = (resultsContainer ?b \<noteq> Empty \<and> errorContainer_hidden quiet_page)"
    and "resultsContainer ?b = Empty \<longrightarrow> errorContainer_text ?b = fetch_error_message"
    by blast+
  with 3 have 4: "\<not> errorContainer_hidden ?b" "errorContainer_text ?b = fetch_error_message"
    by simp_all
  from tc have "resultsContainer ?c
     = (if history_recordable sample_runtime (js ''cat'') (localStorage quiet_page)
        then case parse_reply Unparseable of
               Inl e \<Rightarrow> Empty
             | Inr data \<Rightarrow>
                 (case render_structured sample_runtime (js ''cat'') data of
                    Inl e \<Rightarrow> Empty
                  | Inr v \<Rightarrow> Structured v)
        else Empty)"
    by blast
  then have 5: "resultsContainer ?c = Empty" by (simp add: parse_reply_def)
  from h f g 1 2 x 3 4 5 show ?thesis by blast
qed

subsection \<open>The entry of a grounded reply\<close>

lemma source_items_dedup:
  "source_items cs seen
     = map link_of (dedup_by_uri (filter (\<lambda>w. uri w \<notin> seen) (web_refs cs)))"
proof (induction cs arbitrary: seen)
  case Nil
  then show ?case by (simp add: web_refs_def List.map_filter_simps)
next
  case (Cons c cs)
  show ?case
  proof (cases "web c")
    case None
    with Cons show ?thesis by (simp add: web_refs_def List.map_filter_simps)
  next
    case (Some w)
    have f: "(\<lambda>v. uri v \<noteq> uri w \<and> uri v \<notin> seen) = (\<lambda>v. uri v \<notin> seen \<and> uri v \<noteq> uri w)"
      by auto
    from Some Cons[of "insert (uri w) seen"] Cons[of seen] show ?thesis
      by (simp add: web_refs_def List.map_filter_simps f)
  qed
qed

lemma set_dedup_by_uri: "uri ` set (dedup_by_uri ws) = uri ` set ws"
  by (induction ws rule: dedup_by_uri.induct) auto

lemma dedup_by_uri_subset: "set (dedup_by_uri ws) \<subseteq> set ws"
  by (induction ws rule: dedup_by_uri.induct) auto

lemma distinct_dedup_by_uri: "distinct (map uri (dedup_by_uri ws))"
proof (induction ws rule: dedup_by_uri.induct)
  case 1
  then show ?case by simp
next
  case (2 w ws)
  have "uri w \<notin> uri ` set (filter (\<lambda>v. uri v \<noteq> uri w) ws)" by auto
  then have "uri w \<notin> uri ` set (dedup_by_uri (filter (\<lambda>v. uri v \<noteq> uri w) ws))"
    by (simp add: set_dedup_by_uri)
  with 2 show ?case by simp
qed

lemma subseq_dedup_by_uri: "subseq (dedup_by_uri ws) ws"
proof (induction ws rule: dedup_by_uri.induct)
  case 1
  then show ?case by simp
next
  case (2 w ws)
  have "subseq (filter (\<lambda>v. uri v \<noteq> uri w) ws) ws" by (rule subseq_filter_left)
  with 2 have "subseq (dedup_by_uri (filter (\<lambda>v. uri v \<noteq> uri w) ws)) ws"
    by (rule subseq_order.trans)
  then show ?case by simp
qed

lemma first_seen_dedup_by_uri:
  "v \<in> set (dedup_by_uri ws) \<Longrightarrow> find (\<lambda>x. uri x = uri v) ws = Some v"
proof (induction ws rule: dedup_by_uri.induct)
  case 1
  then show ?case by simp
next
  case (2 w ws)
  show ?case
  proof (cases "v = w")
    case True
    then show ?thesis by simp
  next
    case False
    with 2 have v: "v \<in> set (dedup_by_uri (filter (\<lambda>x. uri x \<noteq> uri w) ws))" by simp
    then have "v \<in> set (filter (\<lambda>x. uri x \<noteq> uri w) ws)"
      using dedup_by_uri_subset by blast
    then have ne: "uri w \<noteq> uri v" by auto
    have "find (\<lambda>x. uri x = uri v) (filter (\<lambda>x. uri x \<noteq> uri w) xs)
        = find (\<lambda>x. uri x = uri v) xs" for xs
      using ne by (induction xs) auto
    then have "find (\<lambda>x. uri x = uri v) ws
        = find (\<lambda>x. uri x = uri v) (filter (\<lambda>x. uri x \<noteq> uri w) ws)"
      by (rule sym)
    also have "\<dots> = Some v" by (rule 2(1)[OF v])
    finally show ?thesis using ne by simp
  qed
qed

lemma replace_newlines_plain: "0x000A \<notin> set t \<Longrightarrow> replace_newlines t = t"
  by (induction t) (auto simp: replace_newlines_def)

lemma replace_newlines_break:
  "replace_newlines (a @ 0x000A # b) = replace_newlines a @ js ''<br>'' @ replace_newlines b"
  by (simp add: replace_newlines_def)

text \<open>
  Claim C7 as stated fails (\<^verbatim>\<open>part_000\<close>): not every reply has a text to take. On a
  reply without text \<^verbatim>\<open>response.text.replace\<close> throws, and on a stored history that
  cannot be read \<^verbatim>\<open>updateHistory\<close> throws before the reply is looked at: either way
  the lookup ends with the error shown and no entry, its grounding chunks unused.
\<close>

theorem reply_without_text_is_an_error:
  "resultsContainer (submit_grounded sample_runtime
      (Resolved (sample_grounded\<lparr>response_text := None\<rparr>))
      (quiet_page\<lparr>searchInput := js ''ephemeral''\<rparr>)) = Empty
   \<and> \<not> errorContainer_hidden (submit_grounded sample_runtime
      (Resolved (sample_grounded\<lparr>response_text := None\<rparr>))
      (quiet_page\<lparr>searchInput := js ''ephemeral''\<rparr>))
   \<and> errorContainer_text (submit_grounded sample_runtime
      (Resolved (sample_grounded\<lparr>response_text := None\<rparr>))
      (quiet_page\<lparr>searchInput := js ''ephemeral''\<rparr>)) = fetch_error_message_grounded
   \<and> resultsContainer (submit_grounded sample_runtime (Resolved sample_grounded)
      (quiet_page\<lparr>searchInput := js ''ephemeral'', localStorage := NotJSON\<rparr>)) = Empty
   \<and> \<not> errorContainer_hidden (submit_grounded sample_runtime (Resolved sample_grounded)
      (quiet_page\<lparr>searchInput := js ''ephemeral'', localStorage := NotJSON\<rparr>))"
  by code_simp

text \<open>
  Claim C7, amended (\<^verbatim>\<open>part_000\<close>). When the service call has resolved, the handler
  ends with an entry exactly when the reply has a text and the history can be recorded;
  in every other case it ends with nothing rendered and the fixed error text shown. The
  entry has the query as heading and the reply text as definition, unchanged but for
  each newline becoming \<^verbatim>\<open><br>\<close>, and no other field. Its list of sources is absent
  when there are no grounding chunks; otherwise it holds one link per web reference of
  the chunks, deduplicated by URI: no URI twice, every URI of the chunks present, the
  order of the chunks kept, and each link made from the first reference seen with its
  URI.
\<close>

theorem grounded_entry:
  "resultsContainer (submit_resume_grounded rt w (Resolved r) s)
     = (case response_text r of
          None \<Rightarrow> Empty
        | Some t \<Rightarrow>
            if history_recordable rt w (localStorage s)
            then Grounded \<lparr>gv_heading = w, gv_definition = replace_newlines t,
                           gv_sources = sources_section (groundingChunks r)\<rparr>
            else Empty)
   \<and> errorContainer_hidden (submit_resume_grounded rt w (Resolved r) s)
     = (response_text r \<noteq> None \<and> history_recordable rt w (localStorage s)
        \<and> errorContainer_hidden s)
   \<and> (response_text r = None \<or> \<not> history_recordable rt w (localStorage s) \<longrightarrow>
        errorContainer_text (submit_resume_grounded rt w (Resolved r) s)
          = fetch_error_message_grounded)
   \<and> (0x000A \<notin> set t \<longrightarrow> replace_newlines t = t)
   \<and> replace_newlines (a @ 0x000A # b) = replace_newlines a @ js ''<br>'' @ replace_newlines b
   \<and> sources_section None = None
   \<and> sources_section (Some []) = None
   \<and> (cs \<noteq> [] \<longrightarrow>
        sources_section (Some cs) = Some (map link_of (dedup_by_uri (web_refs cs))))
   \<and> distinct (map uri (dedup_by_uri (web_refs cs)))
   \<and> uri ` set (dedup_by_uri (web_refs cs)) = uri ` set (web_refs cs)
   \<and> subseq (dedup_by_uri (web_refs cs)) (web_refs cs)
   \<and> (\<forall>v \<in> set (dedup_by_uri (web_refs cs)).
         find (\<lambda>x. uri x = uri v) (web_refs cs) = Some v)"
proof -
  let ?e = "lookup_entry_grounded rt w (Resolved r) (localStorage s)"
  have e: "?e = (case response_text r of
          None \<Rightarrow> None
        | Some t \<Rightarrow>
            if history_recordable rt w (localStorage s)
            then Some \<lparr>gv_heading = w, gv_definition = replace_newlines t,
                       gv_sources = sources_section (groundingChunks r)\<rparr>
            else None)"
    by (simp add: lookup_entry_grounded_def render_grounded_def split: option.splits)
  note p = submit_resume_grounded_page(1,3,4)[of rt w "Resolved r" s]
  from p(1) have 1: "resultsContainer (submit_resume_grounded rt w (Resolved r) s)
     = (case response_text r of
          None \<Rightarrow> Empty
        | Some t \<Rightarrow>
            if history_recordable rt w (localStorage s)
            then Grounded \<lparr>gv_heading = w, gv_definition = replace_newlines t,
                           gv_sources = sources_section (groundingChunks r)\<rparr>
            else Empty)"
    unfolding e by (simp split: option.splits)
  from p(2) have 2: "errorContainer_hidden (submit_resume_grounded rt w (Resolved r) s)
     = (response_text r \<noteq> None \<and> history_recordable rt w (localStorage s)
        \<and> errorContainer_hidden s)"
    unfolding e by (auto split: option.splits)
  from p(3) have 3: "response_text r = None \<or> \<not> history_recordable rt w (localStorage s) \<longrightarrow>
        errorContainer_text (submit_resume_grounded rt w (Resolved r) s)
          = fetch_error_message_grounded"
    unfolding e by (auto split: option.splits)
  have 4: "cs \<noteq> [] \<longrightarrow>
         sources_section (Some cs) = Some (map link_of (dedup_by_uri (web_refs cs)))"
    by (simp add: sources_section_def source_items_dedup)
  have 5: "sources_section None = None" "sources_section (Some []) = None"
    by (simp_all add: sources_section_def)
  have 6: "\<forall>v \<in> set (dedup_by_uri (web_refs cs)).
          find (\<lambda>x. uri x = uri v) (web_refs cs) = Some v"
    using first_seen_dedup_by_uri by blast
  have 7: "0x000A \<notin> set t \<longrightarrow> replace_newlines t = t"
    using replace_newlines_plain by blast
  from 1 2 3 4 5 6 7 replace_newlines_break[of a b] distinct_dedup_by_uri[of "web_refs cs"]
    set_dedup_by_uri[of "web_refs cs"] subseq_dedup_by_uri[of "web_refs cs"]
  show ?thesis by blast
qed

theorem grounded_entry_witness:
  "response_text sample_grounded = Some (js ''lasting'' @ [0x000A] @ js ''a short time'')
   \<and> history_recordable sample_runtime (js ''ephemeral'') (localStorage quiet_page)
   \<and> resultsContainer (submit_resume_grounded sample_runtime (js ''ephemeral'')
        (Resolved sample_grounded) quiet_page)
       = Grounded
           \<lparr>gv_heading = js ''ephemeral'',
            gv_definition = js ''lasting<br>a short time'',
            gv_sources =
              Some [\<lparr>href = js ''https://a.example'', label = js ''A''\<rparr>,
                    \<lparr>href = js ''https://b.example'', label = js ''https://b.example''\<rparr>]\<rparr>
   \<and> \<not> history_recordable sample_runtime (js ''ephemeral'') NotJSON
   \<and> errorContainer_text (submit_resume_grounded sample_runtime (js ''ephemeral'')
        (Resolved sample_grounded) (quiet_page\<lparr>localStorage := NotJSON\<rparr>))
       = fetch_error_message_grounded
   \<and> the (groundingChunks sample_grounded) \<noteq> []
   \<and> sources_section (groundingChunks sample_grounded)
       = Some (map link_of (dedup_by_uri (web_refs (the (groundingChunks sample_grounded)))))
   \<and> \<lparr>uri = Some (js ''https://a.example''), title = Some (js ''A'')\<rparr>
       \<in> set (dedup_by_uri (web_refs (the (groundingChunks sample_grounded))))
   \<and> find (\<lambda>x. uri x = Some (js ''https://a.example''))
        (web_refs (the (groundingChunks sample_grounded)))
       = Some \<lparr>uri = Some (js ''https://a.example''), title = Some (js ''A'')\<rparr>"
proof -
  let ?t = "js ''lasting'' @ [0x000A] @ js ''a short time''"
  let ?cs = "the (groundingChunks sample_grounded)"
  let ?v = "\<lparr>uri = Some (js ''https://a.example''), title = Some (js ''A'')\<rparr>"
  let ?q = "quiet_page\<lparr>localStorage := NotJSON\<rparr>"
  have t: "response_text sample_grounded = Some ?t" by (simp add: sample_grounded_def)
  have h: "history_recordable sample_runtime (js ''ephemeral'') (localStorage quiet_page)"
    by code_simp
  have n: "\<not> history_recordable sample_runtime (js ''ephemeral'') NotJSON" by code_simp
  have q: "localStorage ?q = NotJSON" by simp
  have c: "?cs \<noteq> []" by code_simp
  have g: "groundingChunks sample_grounded = Some ?cs" by (simp add: sample_grounded_def)
  have m: "?v \<in> set (dedup_by_uri (web_refs ?cs))" by code_simp
  have u: "uri ?v = Some (js ''https://a.example'')" by simp
  note ta = grounded_entry[where rt = sample_runtime and w = "js ''ephemeral''"
      and r = sample_grounded and s = quiet_page and t = "[]" and a = "[]" and b = "[]"
      and cs = ?cs]
  note tb = grounded_entry[where rt = sample_runtime and w = "js ''ephemeral''"
      and r = sample_grounded and s = ?q and t = "[]" and a = "[]" and b = "[]"
      and cs = ?cs]
  from ta have "resultsContainer (submit_resume_grounded sample_runtime (js ''ephemeral'')
        (Resolved sample_grounded) quiet_page)
     = (case response_text sample_grounded of
          None \<Rightarrow> Empty
        | Some t \<Rightarrow>
            if history_recordable sample_runtime (js ''ephemeral'') (localStorage quiet_page)
            then Grounded \<lparr>gv_heading = js ''ephemeral'', gv_definition = replace_newlines t,
                           gv_sources = sources_section (groundingChunks sample_grounded)\<rparr>
            else Empty)"
    by blast
  with t h have 1: "resultsContainer (submit_resume_grounded sample_runtime (js ''ephemeral'')
        (Resolved sample_grounded) quiet_page)
       = Grounded \<lparr>gv_heading = js ''ephemeral'', gv_definition = replace_newlines ?t,
                   gv_sources = sources_section (groundingChunks sample_grounded)\<rparr>"
    by simp
  have 2: "replace_newlines ?t = js ''lasting<br>a short time''" by code_simp
  have 3: "sources_section (groundingChunks sample_grounded)
     = Some [\<lparr>href = js ''https://a.example'', label = js ''A''\<rparr>,
             \<lparr>href = js ''https://b.example'', label = js ''https://b.example''\<rparr>]"
    by code_simp
  from tb have "response_text sample_grounded = None
      \<or> \<not> history_recordable sample_runtime (js ''ephemeral'') (localStorage ?q) \<longrightarrow>
        errorContainer_text (submit_resume_grounded sample_runtime (js ''ephemeral'')
          (Resolved sample_grounded) ?q) = fetch_error_message_grounded"
    by blast
  with n q have 4: "errorContainer_text (submit_resume_grounded sample_runtime (js ''ephemeral'')
          (Resolved sample_grounded) ?q) = fetch_error_message_grounded"
    by simp
  from ta c have "sources_section (Some ?cs)
      = Some (map link_of (dedup_by_uri (web_refs ?cs)))"
    by blast
  with g have 5: "sources_section (groundingChunks sample_grounded)
      = Some (map link_of (dedup_by_uri (web_refs ?cs)))"
    by simp
  from ta have "\<forall>v \<in> set (dedup_by_uri (web_refs ?cs)).
         find (\<lambda>x. uri x = uri v) (web_refs ?cs) = Some v"
    by blast
  with m have "find (\<lambda>x. uri x = uri ?v) (web_refs ?cs) = Some ?v" by blast
  with u have 6: "find (\<lambda>x. uri x = Some (js ''https://a.example'')) (web_refs ?cs) = Some ?v"
    by simp
  from 1 have 7: "resultsContainer (submit_resume_grounded sample_runtime (js ''ephemeral'')
        (Resolved sample_grounded) quiet_page)
       = Grounded
           \<lparr>gv_heading = js ''ephemeral'',
            gv_definition = js ''lasting<br>a short time'',
            gv_sources =
              Some [\<lparr>href = js ''https://a.example'', label = js ''A''\<rparr>,
                    \<lparr>href = js ''https://b.example'', label = js ''https://b.example''\<rparr>]\<rparr>"
    by (simp only: 2 3)
  from t h 7 n 4 c 5 m 6 show ?thesis by blast
qed

end
